theory Spec2Isabelle
  imports Complex_Main "HOL-Library.Word"
begin

section \<open>JavaScript values\<close>

text \<open>
  The backend is TypeScript running on Node.js; at run time a request body is whatever
  \<^verbatim>\<open>express.json()\<close> parsed, so the validators receive untyped JavaScript values.
  A JavaScript string is a sequence of 16-bit code units, and \<^verbatim>\<open>.length\<close> counts
  code units. \<open>js\<close> embeds an ASCII literal of the source.
\<close>

type_synonym jsstring = "16 word list"

definition js :: "string \<Rightarrow> jsstring" where
  "js s = map of_char s"

text \<open>
  A number is an IEEE double: a finite value (a real here; every double is one), an
  infinity (which \<^verbatim>\<open>JSON.parse\<close> yields for an overflowing literal) or NaN.
\<close>

datatype jsnum = Finite real | PosInfinity | NegInfinity | NotANumber

text \<open>
  A \<^verbatim>\<open>Date\<close> object holds a time value: milliseconds since the epoch, or NaN
  (an invalid date), here \<open>None\<close>. Arrays and nested objects are carried as values
  because a payload field can hold them.
\<close>

datatype jsval =
    JUndefined
  | JNull
  | JBool bool
  | JNum jsnum
  | JStr jsstring
  | JDate "int option"
  | JArr "jsval list"
  | JObj "(jsstring \<times> jsval) list"

text \<open>
  An object whose properties the code reads and spreads (\<^verbatim>\<open>req.body\<close>,
  \<^verbatim>\<open>req.params\<close>, a stored task) is a finite map from property names to values.
  Reading a property that is not there gives \<^verbatim>\<open>undefined\<close>.
\<close>

type_synonym jsobj = "jsstring \<rightharpoonup> jsval"

definition getProp :: "jsobj \<Rightarrow> string \<Rightarrow> jsval" where
  "getProp obj k = (case obj (js k) of None \<Rightarrow> JUndefined | Some v \<Rightarrow> v)"

definition typeof :: "jsval \<Rightarrow> string" where
  "typeof v =
     (case v of
        JUndefined \<Rightarrow> ''undefined''
      | JBool _ \<Rightarrow> ''boolean''
      | JNum _ \<Rightarrow> ''number''
      | JStr _ \<Rightarrow> ''string''
      | _ \<Rightarrow> ''object'')"

text \<open>\<^verbatim>\<open>ToBoolean\<close>: what \<^verbatim>\<open>if (x)\<close>, \<^verbatim>\<open>!x\<close>, \<^verbatim>\<open>x || d\<close> and \<^verbatim>\<open>x ? a : b\<close> test.\<close>

definition truthy :: "jsval \<Rightarrow> bool" where
  "truthy v =
     (case v of
        JUndefined \<Rightarrow> False
      | JNull \<Rightarrow> False
      | JBool b \<Rightarrow> b
      | JNum n \<Rightarrow> (case n of Finite r \<Rightarrow> r \<noteq> 0 | NotANumber \<Rightarrow> False | _ \<Rightarrow> True)
      | JStr s \<Rightarrow> s \<noteq> []
      | _ \<Rightarrow> True)"

text \<open>
  \<^verbatim>\<open>String.prototype.trim\<close> removes white space and line terminators from both ends:
  TAB, LF, VT, FF, CR, SP, NBSP, U+1680, U+2000 to U+200A, U+2028, U+2029, U+202F, U+205F,
  U+3000 and U+FEFF.
\<close>

definition isWhiteSpace :: "16 word \<Rightarrow> bool" where
  "isWhiteSpace c =
     ((0x0009 \<le> c \<and> c \<le> 0x000D) \<or> c = 0x0020 \<or> c = 0x00A0 \<or> c = 0x1680
      \<or> (0x2000 \<le> c \<and> c \<le> 0x200A) \<or> c = 0x2028 \<or> c = 0x2029 \<or> c = 0x202F
      \<or> c = 0x205F \<or> c = 0x3000 \<or> c = 0xFEFF)"

definition trim :: "jsstring \<Rightarrow> jsstring" where
  "trim s = rev (dropWhile isWhiteSpace (rev (dropWhile isWhiteSpace s)))"

text \<open>\<^verbatim>\<open>Array.prototype.join\<close> on an array of strings.\<close>

fun join :: "jsstring \<Rightarrow> jsstring list \<Rightarrow> jsstring" where
  "join sep [] = []"
| "join sep [x] = x"
| "join sep (x # y # ys) = x @ sep @ join sep (y # ys)"

section \<open>Dates\<close>

text \<open>
  The time arithmetic of ECMAScript (section "Date Objects"), as far as
  \<^verbatim>\<open>new Date(v)\<close>, \<^verbatim>\<open>setHours(0, 0, 0, 0)\<close>, \<^verbatim>\<open>getFullYear()\<close> and
  \<^verbatim>\<open>setFullYear(y)\<close> need it. What the language leaves to the host is a parameter:
  \<^item> \<open>localTZA t isUTC\<close>, the offset of local time from UTC in milliseconds: at the
    instant \<open>t\<close> when \<open>isUTC\<close> holds, and for the local time value \<open>t\<close> otherwise (a
    zone with daylight saving has an offset that depends on \<open>t\<close>);
  \<^item> the parser \<^verbatim>\<open>Date.parse\<close> for strings;
  \<^item> the strings of a number and of a \<^verbatim>\<open>Date\<close>, and the message of the \<^verbatim>\<open>TypeError\<close> that
    a failed conversion throws.
  The third-party function \<^verbatim>\<open>sanitizeHtml\<close> (package sanitize-html, called with the
  options the source fixes) is a parameter too: its code is not part of the repository.
  It is taken to return a string for every argument.
\<close>

record env =
  localTZA :: "int \<Rightarrow> bool \<Rightarrow> int"
  dateParse :: "jsstring \<Rightarrow> int option"
  numberToString :: "jsnum \<Rightarrow> jsstring"
  dateToString :: "int option \<Rightarrow> jsstring"
  typeErrorMessage :: jsstring
  sanitizeHtml :: "jsval \<Rightarrow> jsstring"

definition msPerDay :: int where
  "msPerDay = 86400000"

definition TimeClip :: "int \<Rightarrow> int option" where
  "TimeClip t = (if \<bar>t\<bar> > 8640000000000000 then None else Some t)"

definition LocalTime :: "env \<Rightarrow> int \<Rightarrow> int" where
  "LocalTime e t = t + localTZA e t True"

definition UTC :: "env \<Rightarrow> int \<Rightarrow> int" where
  "UTC e t = t - localTZA e t False"

definition Day :: "int \<Rightarrow> int" where
  "Day t = t div msPerDay"

definition TimeWithinDay :: "int \<Rightarrow> int" where
  "TimeWithinDay t = t mod msPerDay"

definition DaysInYear :: "int \<Rightarrow> int" where
  "DaysInYear y =
     (if y mod 4 \<noteq> 0 then 365
      else if y mod 100 \<noteq> 0 then 366
      else if y mod 400 \<noteq> 0 then 365
      else 366)"

definition DayFromYear :: "int \<Rightarrow> int" where
  "DayFromYear y =
     365 * (y - 1970) + (y - 1969) div 4 - (y - 1901) div 100 + (y - 1601) div 400"

text \<open>
  \<open>YearFromTime t\<close> is the largest year \<open>y\<close> with \<open>DayFromYear y \<le> Day t\<close>. It is
  computed from the estimate \<open>Day t / 365.2425\<close>, which is off by at most one
  (lemma \<open>YearFromTime_bounds\<close> below).
\<close>

definition YearFromTime :: "int \<Rightarrow> int" where
  "YearFromTime t =
     (let d = Day t; y = 1970 + (400 * d) div 146097 in
      if d < DayFromYear y then y - 1
      else if DayFromYear (y + 1) \<le> d then y + 1
      else y)"

definition InLeapYear :: "int \<Rightarrow> int" where
  "InLeapYear t = (if DaysInYear (YearFromTime t) = 366 then 1 else 0)"

definition DayWithinYear :: "int \<Rightarrow> int" where
  "DayWithinYear t = Day t - DayFromYear (YearFromTime t)"

text \<open>The day of the year on which month \<open>m\<close> (0 to 11) starts; \<open>l\<close> is 1 in a leap year.\<close>

definition monthStart :: "int \<Rightarrow> int \<Rightarrow> int" where
  "monthStart m l =
     (if m = 0 then 0 else if m = 1 then 31 else if m = 2 then 59 + l
      else if m = 3 then 90 + l else if m = 4 then 120 + l else if m = 5 then 151 + l
      else if m = 6 then 181 + l else if m = 7 then 212 + l else if m = 8 then 243 + l
      else if m = 9 then 273 + l else if m = 10 then 304 + l else 334 + l)"

definition MonthFromTime :: "int \<Rightarrow> int" where
  "MonthFromTime t =
     (let d = DayWithinYear t; l = InLeapYear t in
      if d < 31 then 0 else if d < 59 + l then 1 else if d < 90 + l then 2
      else if d < 120 + l then 3 else if d < 151 + l then 4 else if d < 181 + l then 5
      else if d < 212 + l then 6 else if d < 243 + l then 7 else if d < 273 + l then 8
      else if d < 304 + l then 9 else if d < 334 + l then 10 else 11)"

definition DateFromTime :: "int \<Rightarrow> int" where
  "DateFromTime t = DayWithinYear t - monthStart (MonthFromTime t) (InLeapYear t) + 1"

text \<open>
  \<open>MakeDay year month date\<close>: the day number of the given date of the given month;
  a date past the end of the month runs into the next one (29 February of a year that
  is not a leap year is 1 March).
\<close>

definition MakeDay :: "int \<Rightarrow> int \<Rightarrow> int \<Rightarrow> int" where
  "MakeDay year month date =
     (let ym = year + month div 12; mn = month mod 12 in
      DayFromYear ym + monthStart mn (if DaysInYear ym = 366 then 1 else 0) + date - 1)"

definition MakeDate :: "int \<Rightarrow> int \<Rightarrow> int" where
  "MakeDate day time = day * msPerDay + time"

text \<open>
  \<^verbatim>\<open>ToString\<close> of a value that \<^verbatim>\<open>JSON.parse\<close> can build, \<open>None\<close> when it throws a
  \<^verbatim>\<open>TypeError\<close>. An array is joined with commas, \<^verbatim>\<open>undefined\<close> and \<^verbatim>\<open>null\<close> elements
  giving the empty string. A plain object is \<^verbatim>\<open>[object Object]\<close> by
  \<^verbatim>\<open>Object.prototype.toString\<close>, unless it has an own property \<^verbatim>\<open>toString\<close>: a parsed
  value is never callable, \<^verbatim>\<open>valueOf\<close> gives no primitive either, and the conversion
  throws. \<^verbatim>\<open>ToPrimitive\<close> of an array or a plain object ends in the same way.
\<close>

fun joinAll :: "jsstring option list \<Rightarrow> jsstring option" where
  "joinAll rs = (if None \<in> set rs then None else Some (join (js '','') (map the rs)))"

fun ToString :: "env \<Rightarrow> jsval \<Rightarrow> jsstring option" where
  "ToString e JUndefined = Some (js ''undefined'')"
| "ToString e JNull = Some (js ''null'')"
| "ToString e (JBool b) = Some (if b then js ''true'' else js ''false'')"
| "ToString e (JNum n) = Some (numberToString e n)"
| "ToString e (JStr s) = Some s"
| "ToString e (JDate t) = Some (dateToString e t)"
| "ToString e (JArr xs) =
     joinAll (map (\<lambda>x. if x = JUndefined \<or> x = JNull then Some [] else ToString e x) xs)"
| "ToString e (JObj ps) =
     (if js ''toString'' \<in> fst ` set ps then None else Some (js ''[object Object]''))"

text \<open>
  The failures of the program: the \<^verbatim>\<open>ValidationError\<close> that the validators throw, and the
  \<^verbatim>\<open>TypeError\<close> of the language, with its message.
\<close>

record ValidationErrorDetail =
  field :: jsstring
  message :: jsstring

datatype error = ValidationError "ValidationErrorDetail list" | TypeError jsstring

text \<open>
  \<^verbatim>\<open>new Date(v)\<close>: the time value of the new object, or the \<^verbatim>\<open>TypeError\<close> it throws
  when an array or object cannot be converted to a primitive.
\<close>

definition newDate :: "env \<Rightarrow> jsval \<Rightarrow> error + int option" where
  "newDate e v =
     (case v of
        JDate t \<Rightarrow> Inr t
      | JUndefined \<Rightarrow> Inr None
      | JNull \<Rightarrow> Inr (Some 0)
      | JBool b \<Rightarrow> Inr (Some (if b then 1 else 0))
      | JNum n \<Rightarrow>
          (case n of
             Finite r \<Rightarrow>
               (if \<bar>r\<bar> > 8640000000000000 then Inr None
                else Inr (Some (if r < 0 then \<lceil>r\<rceil> else \<lfloor>r\<rfloor>)))
           | _ \<Rightarrow> Inr None)
      | JStr s \<Rightarrow> Inr (case dateParse e s of None \<Rightarrow> None | Some t \<Rightarrow> TimeClip t)
      | _ \<Rightarrow>
          (case ToString e v of
             None \<Rightarrow> Inl (TypeError (typeErrorMessage e))
           | Some s \<Rightarrow> Inr (case dateParse e s of None \<Rightarrow> None | Some t \<Rightarrow> TimeClip t)))"

text \<open>
  \<^verbatim>\<open>d.setHours(0, 0, 0, 0)\<close> on a valid date with time value \<open>t\<close>: the new time value is
  midnight of the local day of \<open>t\<close>, converted back to UTC and clipped.
\<close>

definition localMidnight :: "env \<Rightarrow> int \<Rightarrow> int" where
  "localMidnight e t = UTC e (MakeDate (Day (LocalTime e t)) 0)"

definition setHours0 :: "env \<Rightarrow> int \<Rightarrow> int option" where
  "setHours0 e t = TimeClip (localMidnight e t)"

definition getFullYear :: "env \<Rightarrow> int \<Rightarrow> int" where
  "getFullYear e t = YearFromTime (LocalTime e t)"

text \<open>\<^verbatim>\<open>d.setFullYear(y)\<close> on a valid date with time value \<open>t\<close>: the new time value.\<close>

definition setFullYear :: "env \<Rightarrow> int \<Rightarrow> int \<Rightarrow> int option" where
  "setFullYear e t y =
     (let lt = LocalTime e t;
          newD = MakeDate (MakeDay y (MonthFromTime lt) (DateFromTime lt)) (TimeWithinDay lt)
      in TimeClip (UTC e newD))"

text \<open>
  \<^verbatim>\<open>a < b\<close> and \<^verbatim>\<open>a > b\<close> on two \<^verbatim>\<open>Date\<close> objects compare their time values;
  a comparison with NaN is false.
\<close>

definition date_less :: "int option \<Rightarrow> int option \<Rightarrow> bool" where
  "date_less a b = (case (a, b) of (Some x, Some y) \<Rightarrow> x < y | _ \<Rightarrow> False)"

text \<open>\<^verbatim>\<open>d.getTime()\<close>: the time value of a \<^verbatim>\<open>Date\<close> object.\<close>

definition getTime :: "jsval \<Rightarrow> int option" where
  "getTime v = (case v of JDate t \<Rightarrow> t | _ \<Rightarrow> None)"

section \<open>The task model (models/task.model.ts)\<close>

datatype TaskStatus = PENDING | IN_PROGRESS | COMPLETED | BLOCKED

fun TaskStatus_value :: "TaskStatus \<Rightarrow> jsstring" where
  "TaskStatus_value PENDING = js ''pending''"
| "TaskStatus_value IN_PROGRESS = js ''in-progress''"
| "TaskStatus_value COMPLETED = js ''completed''"
| "TaskStatus_value BLOCKED = js ''blocked''"

datatype TaskPriority = LOW | MEDIUM | HIGH | CRITICAL

fun TaskPriority_value :: "TaskPriority \<Rightarrow> jsstring" where
  "TaskPriority_value LOW = js ''low''"
| "TaskPriority_value MEDIUM = js ''medium''"
| "TaskPriority_value HIGH = js ''high''"
| "TaskPriority_value CRITICAL = js ''critical''"

text \<open>\<^verbatim>\<open>Object.values(TaskStatus)\<close> and \<^verbatim>\<open>Object.values(TaskPriority)\<close>, in declaration order.\<close>

definition validStatuses :: "jsstring list" where
  "validStatuses = map TaskStatus_value [PENDING, IN_PROGRESS, COMPLETED, BLOCKED]"

definition validPriorities :: "jsstring list" where
  "validPriorities = map TaskPriority_value [LOW, MEDIUM, HIGH, CRITICAL]"

text \<open>
  \<^verbatim>\<open>xs.includes(v)\<close> on an array of strings: \<open>v\<close> is found when it is a string equal to
  an element; a value of any other type is never found.
\<close>

definition array_includes :: "jsstring list \<Rightarrow> jsval \<Rightarrow> bool" where
  "array_includes xs v = (case v of JStr s \<Rightarrow> s \<in> set xs | _ \<Rightarrow> False)"

text \<open>
  The interfaces \<^verbatim>\<open>Task\<close>, \<^verbatim>\<open>CreateTaskDTO\<close> and \<^verbatim>\<open>UpdateTaskDTO\<close> are erased at run
  time: a task and a payload are objects (\<open>jsobj\<close>), and the object spread of
  \<^verbatim>\<open>updateTask\<close> copies whatever properties the payload has.
\<close>

section \<open>Validation (middleware/taskValidation.ts)\<close>

text \<open>
  The properties of an error that \<^verbatim>\<open>errorHandler\<close> reads. The class \<^verbatim>\<open>ValidationError\<close>
  sets \<^verbatim>\<open>statusCode\<close> to 400, its message to \<^verbatim>\<open>'Validation failed'\<close> and \<^verbatim>\<open>errors\<close> to the
  list; a \<^verbatim>\<open>TypeError\<close> has a message only.
\<close>

fun statusCode :: "error \<Rightarrow> nat option" where
  "statusCode (ValidationError errors) = Some 400"
| "statusCode (TypeError msg) = None"

fun error_message :: "error \<Rightarrow> jsstring" where
  "error_message (ValidationError errors) = js ''Validation failed''"
| "error_message (TypeError msg) = msg"

fun error_errors :: "error \<Rightarrow> ValidationErrorDetail list option" where
  "error_errors (ValidationError errors) = Some errors"
| "error_errors (TypeError msg) = None"

definition sanitizeText :: "env \<Rightarrow> jsval \<Rightarrow> jsstring" where
  "sanitizeText e text = trim (sanitizeHtml e text)"

definition validateTitle :: "jsval \<Rightarrow> ValidationErrorDetail option" where
  "validateTitle title =
     (if title = JUndefined \<or> title = JNull then
        Some \<lparr>field = js ''title'', message = js ''Title is required''\<rparr>
      else case title of
        JStr s \<Rightarrow>
          (let trimmedTitle = trim s in
           if length trimmedTitle < 3 then
             Some \<lparr>field = js ''title'', message = js ''Title must be at least 3 characters long''\<rparr>
           else if length trimmedTitle > 100 then
             Some \<lparr>field = js ''title'', message = js ''Title must not exceed 100 characters''\<rparr>
           else None)
      | _ \<Rightarrow> Some \<lparr>field = js ''title'', message = js ''Title must be a string''\<rparr>)"

definition validateDescription :: "jsval \<Rightarrow> ValidationErrorDetail option" where
  "validateDescription description =
     (if description = JUndefined \<or> description = JNull then None
      else case description of
        JStr s \<Rightarrow>
          (if length s > 500 then
             Some \<lparr>field = js ''description'',
                   message = js ''Description must not exceed 500 characters''\<rparr>
           else None)
      | _ \<Rightarrow> Some \<lparr>field = js ''description'', message = js ''Description must be a string''\<rparr>)"

definition validateStatus :: "jsval \<Rightarrow> ValidationErrorDetail option" where
  "validateStatus status =
     (if status = JUndefined \<or> status = JNull then None
      else if \<not> array_includes validStatuses status then
        Some \<lparr>field = js ''status'',
              message = js ''Status must be one of: '' @ join (js '', '') validStatuses\<rparr>
      else None)"

definition validatePriority :: "jsval \<Rightarrow> ValidationErrorDetail option" where
  "validatePriority priority =
     (if priority = JUndefined \<or> priority = JNull then None
      else if \<not> array_includes validPriorities priority then
        Some \<lparr>field = js ''priority'',
              message = js ''Priority must be one of: '' @ join (js '', '') validPriorities\<rparr>
      else None)"

text \<open>
  \<^verbatim>\<open>validateDueDate\<close> reads the clock twice (\<^verbatim>\<open>const now = new Date()\<close> and
  \<^verbatim>\<open>const tenYearsFromNow = new Date()\<close>); \<open>now1\<close> and \<open>now2\<close> are the two readings.
  It has no \<^verbatim>\<open>try\<close> of its own: what \<^verbatim>\<open>new Date(dueDate)\<close> throws leaves it (\<open>Inl\<close>).
\<close>

definition validateDueDate ::
  "env \<Rightarrow> int \<Rightarrow> int \<Rightarrow> jsval \<Rightarrow> error + ValidationErrorDetail option" where
  "validateDueDate e now1 now2 dueDate =
     (if dueDate = JUndefined \<or> dueDate = JNull then Inr None
      else case newDate e dueDate of
        Inl err \<Rightarrow> Inl err
      | Inr None \<Rightarrow>
          Inr (Some \<lparr>field = js ''dueDate'',
                message = js ''Due date must be a valid date (ISO 8601 format: YYYY-MM-DD or YYYY-MM-DDTHH:mm:ss)''\<rparr>)
      | Inr (Some date) \<Rightarrow>
          (let now = setHours0 e now1;
               dueDateOnly = setHours0 e date
           in if date_less dueDateOnly now then
                Inr (Some \<lparr>field = js ''dueDate'',
                             message = js ''Due date must be today or in the future''\<rparr>)
              else
                (let tenYearsFromNow = setFullYear e now2 (getFullYear e now2 + 10)
                 in if date_less tenYearsFromNow (Some date) then
                      Inr (Some \<lparr>field = js ''dueDate'',
                            message = js ''Due date must not be more than 10 years in the future''\<rparr>)
                    else Inr None)))"

text \<open>
  A request, as far as the handlers read it. A middleware either passes the (possibly
  mutated) request on with \<^verbatim>\<open>next()\<close>, passes an error on with \<^verbatim>\<open>next(error)\<close>, or
  sends a response.
\<close>

record request =
  params :: jsobj
  body :: jsobj

datatype resbody =
    TaskBody "jsstring option" jsobj
  | MessageBody jsstring
  | NotFoundBody jsval
  | ValidationBody "ValidationErrorDetail list"
  | ErrorBody jsstring nat

datatype response = JsonResponse nat resbody

datatype outcome = Next request | NextError error | Send response

text \<open>\<^verbatim>\<open>if (e) errors.push(e)\<close>.\<close>

definition pushError :: "ValidationErrorDetail option \<Rightarrow> ValidationErrorDetail list \<Rightarrow> ValidationErrorDetail list" where
  "pushError e errors = (case e of None \<Rightarrow> errors | Some d \<Rightarrow> errors @ [d])"

text \<open>
  The two aggregators are middleware: the body of \<^verbatim>\<open>try\<close> either reaches \<^verbatim>\<open>next()\<close> or
  throws, and \<^verbatim>\<open>catch\<close> passes whatever was thrown to \<^verbatim>\<open>next(error)\<close>: the
  \<^verbatim>\<open>ValidationError\<close> that the middleware builds itself, or the \<^verbatim>\<open>TypeError\<close> that leaves
  \<^verbatim>\<open>validateDueDate\<close>, which ends the \<^verbatim>\<open>try\<close> block where it is thrown.
\<close>

definition validateCreateTask :: "env \<Rightarrow> int \<Rightarrow> int \<Rightarrow> request \<Rightarrow> outcome" where
  "validateCreateTask e now1 now2 req =
     (let title = getProp (body req) ''title'';
          description = getProp (body req) ''description'';
          status = getProp (body req) ''status'';
          priority = getProp (body req) ''priority'';
          dueDate = getProp (body req) ''dueDate'';
          errors0 = [];
          errors1 = pushError (validateTitle title) errors0;
          errors2 = pushError (validateDescription description) errors1;
          errors3 = pushError (validateStatus status) errors2;
          errors4 = pushError (validatePriority priority) errors3
      in case validateDueDate e now1 now2 dueDate of
           Inl err \<Rightarrow> NextError err
         | Inr dueDateError \<Rightarrow>
             (let errors5 = pushError dueDateError errors4
              in if length errors5 > 0 then NextError (ValidationError errors5)
                 else
                   (let body1 = (if truthy title
                                 then (body req)(js ''title'' \<mapsto> JStr (sanitizeText e title))
                                 else body req);
                        body2 = (if truthy description
                                 then body1(js ''description'' \<mapsto> JStr (sanitizeText e description))
                                 else body1)
                    in if truthy dueDate
                       then (case newDate e dueDate of
                               Inl err \<Rightarrow> NextError err
                             | Inr d \<Rightarrow> Next (req\<lparr>body := body2(js ''dueDate'' \<mapsto> JDate d)\<rparr>))
                       else Next (req\<lparr>body := body2\<rparr>))))"

definition validateUpdateTask :: "env \<Rightarrow> int \<Rightarrow> int \<Rightarrow> request \<Rightarrow> outcome" where
  "validateUpdateTask e now1 now2 req =
     (let title = getProp (body req) ''title'';
          description = getProp (body req) ''description'';
          status = getProp (body req) ''status'';
          priority = getProp (body req) ''priority'';
          dueDate = getProp (body req) ''dueDate''
      in if title = JUndefined \<and> description = JUndefined \<and> status = JUndefined
            \<and> priority = JUndefined \<and> dueDate = JUndefined
         then NextError (ValidationError
                [\<lparr>field = js ''body'',
                  message = js ''At least one field (title, description, status, priority, or dueDate) must be provided for update''\<rparr>])
         else
           (let errors0 = [];
                errors1 = (if title \<noteq> JUndefined
                           then pushError (validateTitle title) errors0 else errors0);
                errors2 = (if description \<noteq> JUndefined
                           then pushError (validateDescription description) errors1 else errors1);
                errors3 = (if status \<noteq> JUndefined
                           then pushError (validateStatus status) errors2 else errors2);
                errors4 = (if priority \<noteq> JUndefined
                           then pushError (validatePriority priority) errors3 else errors3)
            in case (if dueDate \<noteq> JUndefined
                     then validateDueDate e now1 now2 dueDate else Inr None) of
                 Inl err \<Rightarrow> NextError err
               | Inr dueDateError \<Rightarrow>
                   (let errors5 = pushError dueDateError errors4
                    in if length errors5 > 0 then NextError (ValidationError errors5)
                       else
                         (let body1 = (if title \<noteq> JUndefined
                                       then (body req)(js ''title'' \<mapsto> JStr (sanitizeText e title))
                                       else body req);
                              body2 = (if description \<noteq> JUndefined
                                       then body1(js ''description'' \<mapsto> JStr (sanitizeText e description))
                                       else body1)
                          in if dueDate \<noteq> JUndefined
                             then (case newDate e dueDate of
                                     Inl err \<Rightarrow> NextError err
                                   | Inr d \<Rightarrow> Next (req\<lparr>body := body2(js ''dueDate'' \<mapsto> JDate d)\<rparr>))
                             else Next (req\<lparr>body := body2\<rparr>)))))"

text \<open>
  The regular expression of \<^verbatim>\<open>validateTaskId\<close>,
  \<^verbatim>\<open>/^[0-9a-f]{8}-[0-9a-f]{4}-4[0-9a-f]{3}-[89ab][0-9a-f]{3}-[0-9a-f]{12}$/i\<close>:
  a sequence of 36 character classes that the whole string has to match, letters in
  either case.
\<close>

definition isHex :: "16 word \<Rightarrow> bool" where
  "isHex c = ((0x30 \<le> c \<and> c \<le> 0x39) \<or> (0x61 \<le> c \<and> c \<le> 0x66) \<or> (0x41 \<le> c \<and> c \<le> 0x46))"

definition isDash :: "16 word \<Rightarrow> bool" where
  "isDash c = (c = 0x2D)"

definition isFour :: "16 word \<Rightarrow> bool" where
  "isFour c = (c = 0x34)"

definition is89ab :: "16 word \<Rightarrow> bool" where
  "is89ab c = (c = 0x38 \<or> c = 0x39 \<or> c = 0x61 \<or> c = 0x62 \<or> c = 0x41 \<or> c = 0x42)"

definition uuidRegex :: "(16 word \<Rightarrow> bool) list" where
  "uuidRegex =
     replicate 8 isHex @ [isDash] @ replicate 4 isHex @ [isDash] @ [isFour] @ replicate 3 isHex
     @ [isDash] @ [is89ab] @ replicate 3 isHex @ [isDash] @ replicate 12 isHex"

definition regex_test :: "(16 word \<Rightarrow> bool) list \<Rightarrow> jsstring \<Rightarrow> bool" where
  "regex_test r s = list_all2 (\<lambda>p c. p c) r s"

definition validateTaskId :: "request \<Rightarrow> outcome" where
  "validateTaskId req =
     (let id' = getProp (params req) ''id'' in
      if \<not> truthy id' \<or> typeof id' \<noteq> ''string'' then
        NextError (ValidationError [\<lparr>field = js ''id'', message = js ''Task ID is required''\<rparr>])
      else case id' of
        JStr s \<Rightarrow>
          (if \<not> regex_test uuidRegex s then
             NextError (ValidationError
               [\<lparr>field = js ''id'', message = js ''Invalid task ID format (must be a valid UUID v4)''\<rparr>])
           else Next req)
      | _ \<Rightarrow> Next req)"

section \<open>The store (models/task.store.ts)\<close>

text \<open>
  \<^verbatim>\<open>TaskStore.tasks\<close> is a \<^verbatim>\<open>Map\<close> from identifiers to tasks. Only strings are ever
  stored as keys, so a lookup with a value of another type finds nothing. The methods
  take the store and return the new one, or what they throw (\<open>Inl\<close>; the store is then
  as it was). What the environment supplies is an argument: the result of
  \<^verbatim>\<open>randomUUID()\<close> and each reading of the clock by \<^verbatim>\<open>new Date()\<close>.
\<close>

type_synonym TaskStore = "jsstring \<rightharpoonup> jsobj"

definition taskStore_getTaskById :: "jsval \<Rightarrow> TaskStore \<Rightarrow> jsobj option" where
  "taskStore_getTaskById id' tasks = (case id' of JStr s \<Rightarrow> tasks s | _ \<Rightarrow> None)"

definition taskStore_createTask ::
  "env \<Rightarrow> jsstring \<Rightarrow> int \<Rightarrow> int \<Rightarrow> jsobj \<Rightarrow> TaskStore \<Rightarrow> error + jsobj \<times> TaskStore" where
  "taskStore_createTask e uuid created updated taskData tasks =
     (case (if truthy (getProp taskData ''dueDate'')
            then (case newDate e (getProp taskData ''dueDate'') of
                    Inl err \<Rightarrow> Inl err | Inr d \<Rightarrow> Inr (JDate d))
            else Inr JUndefined) of
        Inl err \<Rightarrow> Inl err
      | Inr dueDate \<Rightarrow>
          (let newTask =
                 [js ''id'' \<mapsto> JStr uuid,
                  js ''title'' \<mapsto> getProp taskData ''title'',
                  js ''description'' \<mapsto> getProp taskData ''description'',
                  js ''status'' \<mapsto>
                    (if truthy (getProp taskData ''status'') then getProp taskData ''status''
                     else JStr (TaskStatus_value PENDING)),
                  js ''priority'' \<mapsto>
                    (if truthy (getProp taskData ''priority'') then getProp taskData ''priority''
                     else JStr (TaskPriority_value MEDIUM)),
                  js ''dueDate'' \<mapsto> dueDate,
                  js ''createdAt'' \<mapsto> JDate (Some created),
                  js ''updatedAt'' \<mapsto> JDate (Some updated)]
           in Inr (newTask, tasks(uuid \<mapsto> newTask))))"

text \<open>
  \<^verbatim>\<open>{...existingTask, ...taskData, dueDate: ..., updatedAt: new Date()}\<close>: the properties
  of the payload override those of the stored task, then the two named ones are set.
\<close>

definition taskStore_updateTask ::
  "env \<Rightarrow> int \<Rightarrow> jsval \<Rightarrow> jsobj \<Rightarrow> TaskStore \<Rightarrow> error + jsobj option \<times> TaskStore" where
  "taskStore_updateTask e now id' taskData tasks =
     (case id' of
        JStr s \<Rightarrow>
          (case tasks s of
             None \<Rightarrow> Inr (None, tasks)
           | Some existingTask \<Rightarrow>
               (case (if getProp taskData ''dueDate'' \<noteq> JUndefined
                      then (case newDate e (getProp taskData ''dueDate'') of
                              Inl err \<Rightarrow> Inl err | Inr d \<Rightarrow> Inr (JDate d))
                      else Inr (getProp existingTask ''dueDate'')) of
                  Inl err \<Rightarrow> Inl err
                | Inr dueDate \<Rightarrow>
                    (let updatedTask =
                           (existingTask ++ taskData)
                             (js ''dueDate'' \<mapsto> dueDate, js ''updatedAt'' \<mapsto> JDate (Some now))
                     in Inr (Some updatedTask, tasks(s \<mapsto> updatedTask)))))
      | _ \<Rightarrow> Inr (None, tasks))"

definition taskStore_deleteTask :: "jsval \<Rightarrow> TaskStore \<Rightarrow> bool \<times> TaskStore" where
  "taskStore_deleteTask id' tasks =
     (case id' of
        JStr s \<Rightarrow> (tasks s \<noteq> None, tasks(s := None))
      | _ \<Rightarrow> (False, tasks))"

section \<open>Controllers, error handler and routes\<close>

text \<open>
  A handler sees the request and the store and returns what it did and the store it
  left. The controllers (controllers/task.controller.ts) send a response, or pass what
  the store threw to \<^verbatim>\<open>next(error)\<close>.
\<close>

type_synonym handler = "request \<Rightarrow> TaskStore \<Rightarrow> outcome \<times> TaskStore"

definition middleware :: "(request \<Rightarrow> outcome) \<Rightarrow> handler" where
  "middleware f req tasks = (f req, tasks)"

definition getTaskById :: handler where
  "getTaskById req tasks =
     (let id' = getProp (params req) ''id'' in
      case taskStore_getTaskById id' tasks of
        None \<Rightarrow> (Send (JsonResponse 404 (NotFoundBody id')), tasks)
      | Some task \<Rightarrow> (Send (JsonResponse 200 (TaskBody None task)), tasks))"

definition createTask :: "env \<Rightarrow> jsstring \<Rightarrow> int \<Rightarrow> int \<Rightarrow> handler" where
  "createTask e uuid created updated req tasks =
     (case taskStore_createTask e uuid created updated (body req) tasks of
        Inl err \<Rightarrow> (NextError err, tasks)
      | Inr (newTask, tasks') \<Rightarrow>
          (Send (JsonResponse 201 (TaskBody (Some (js ''Task created successfully'')) newTask)),
           tasks'))"

definition updateTask :: "env \<Rightarrow> int \<Rightarrow> handler" where
  "updateTask e now req tasks =
     (let id' = getProp (params req) ''id'' in
      case taskStore_updateTask e now id' (body req) tasks of
        Inl err \<Rightarrow> (NextError err, tasks)
      | Inr (None, tasks') \<Rightarrow> (Send (JsonResponse 404 (NotFoundBody id')), tasks')
      | Inr (Some updatedTask, tasks') \<Rightarrow>
          (Send (JsonResponse 200 (TaskBody (Some (js ''Task updated successfully'')) updatedTask)),
           tasks'))"

definition deleteTask :: handler where
  "deleteTask req tasks =
     (let id' = getProp (params req) ''id'';
          (deleted, tasks') = taskStore_deleteTask id' tasks
      in if \<not> deleted then (Send (JsonResponse 404 (NotFoundBody id')), tasks')
         else (Send (JsonResponse 200 (MessageBody (js ''Task deleted successfully''))), tasks'))"

text \<open>
  \<^verbatim>\<open>errorHandler\<close> (middleware/errorHandler.ts), without its logging:
  \<^verbatim>\<open>err.statusCode || 500\<close>, \<^verbatim>\<open>err.message || 'Internal Server Error'\<close>, and the
  detailed format when \<^verbatim>\<open>err.errors\<close> is a non-empty array.
\<close>

definition errorHandler :: "error \<Rightarrow> response" where
  "errorHandler err =
     (let statusCode' = (case statusCode err of Some c \<Rightarrow> if c = 0 then 500 else c | None \<Rightarrow> 500);
          message' = (if error_message err = [] then js ''Internal Server Error''
                      else error_message err)
      in case error_errors err of
           Some errors \<Rightarrow>
             (if length errors > 0 then JsonResponse statusCode' (ValidationBody errors)
              else JsonResponse statusCode' (ErrorBody message' statusCode'))
         | None \<Rightarrow> JsonResponse statusCode' (ErrorBody message' statusCode'))"

text \<open>
  Express runs the handlers of a route in order. \<^verbatim>\<open>next()\<close> goes on to the next one,
  \<^verbatim>\<open>next(error)\<close> skips the handlers that are left and reaches the error handler that
  \<^verbatim>\<open>app.ts\<close> registers last, and a handler that sends a response ends the request. When
  every handler has called \<^verbatim>\<open>next()\<close>, nothing has answered (\<open>None\<close>).
\<close>

fun run :: "handler list \<Rightarrow> request \<Rightarrow> TaskStore \<Rightarrow> response option \<times> TaskStore" where
  "run [] req tasks = (None, tasks)"
| "run (h # hs) req tasks =
     (case h req tasks of
        (Next req', tasks') \<Rightarrow> run hs req' tasks'
      | (NextError err, tasks') \<Rightarrow> (Some (errorHandler err), tasks')
      | (Send res, tasks') \<Rightarrow> (Some res, tasks'))"

text \<open>The routes of the task router (routes/task.routes.ts).\<close>

definition router_get_id :: "handler list" where
  "router_get_id = [middleware validateTaskId, getTaskById]"

definition router_post :: "env \<Rightarrow> int \<Rightarrow> int \<Rightarrow> jsstring \<Rightarrow> int \<Rightarrow> int \<Rightarrow> handler list" where
  "router_post e now1 now2 uuid created updated =
     [middleware (validateCreateTask e now1 now2), createTask e uuid created updated]"

definition router_put_id :: "env \<Rightarrow> int \<Rightarrow> int \<Rightarrow> int \<Rightarrow> handler list" where
  "router_put_id e now1 now2 now3 =
     [middleware validateTaskId, middleware (validateUpdateTask e now1 now2), updateTask e now3]"

definition router_delete_id :: "handler list" where
  "router_delete_id = [middleware validateTaskId, deleteTask]"

section \<open>Environments for examples\<close>

text \<open>
  The examples below are evaluated in UTC, with a \<^verbatim>\<open>Date.parse\<close> that accepts no string
  and a \<^verbatim>\<open>sanitizeHtml\<close> that returns a string as it is and the empty string for any
  other value. No example depends on more than that.
\<close>

definition exampleEnv :: env where
  "exampleEnv =
     \<lparr>localTZA = (\<lambda>t isUTC. 0), dateParse = (\<lambda>s. None), numberToString = (\<lambda>n. []),
      dateToString = (\<lambda>t. []),
      typeErrorMessage = js ''Cannot convert object to primitive value'',
      sanitizeHtml = (\<lambda>v. case v of JStr s \<Rightarrow> s | _ \<Rightarrow> [])\<rparr>"

text \<open>
  A server seven hours west of UTC all the year (Phoenix). ECMAScript reads the date-only
  string \<^verbatim>\<open>2026-11-02\<close> as midnight UTC of that day, the time value 1793577600000.
\<close>

definition westEnv :: env where
  "westEnv =
     exampleEnv
       \<lparr>localTZA := (\<lambda>t isUTC. - 25200000),
        dateParse := (\<lambda>s. if s = js ''2026-11-02'' then Some 1793577600000 else None)\<rparr>"

text \<open>
  A server with the offsets of New York in 2026: five hours west of UTC, and four hours
  from 8 March 2026, 07:00 UTC, to 1 November 2026, 06:00 UTC. A local time that the
  clocks skip or show twice is read with the offset before the change.
\<close>

definition dstEnv :: env where
  "dstEnv =
     exampleEnv
       \<lparr>localTZA :=
          (\<lambda>t isUTC.
             if isUTC then (if 1772953200000 \<le> t \<and> t < 1793512800000 then - 14400000 else - 18000000)
             else (if 1772938800000 \<le> t \<and> t < 1793498400000 then - 14400000 else - 18000000))\<rparr>"

section \<open>String literals\<close>

lemma of_char_lt_256: "(of_char c :: nat) < 256"
  by simp

lemma unat_of_char: "unat (of_char c :: 16 word) = of_char c"
proof -
  have "(of_char c :: 16 word) = of_nat (of_char c)" by (simp add: of_nat_of_char)
  then have "unat (of_char c :: 16 word) = (of_char c :: nat) mod 2 ^ 16"
    by (simp add: unat_of_nat)
  moreover have "(of_char c :: nat) < 2 ^ 16" by (rule less_trans [OF of_char_lt_256]) simp
  ultimately show ?thesis by simp
qed

lemma js_inject [simp]: "js a = js b \<longleftrightarrow> a = b"
proof
  assume h: "js a = js b"
  have "map (unat :: 16 word \<Rightarrow> nat) (js a) = map unat (js b)" using h by simp
  then have "map (of_char :: char \<Rightarrow> nat) a = map of_char b"
    by (simp add: js_def unat_of_char comp_def)
  then show "a = b"
    using inj_of_char [where ?'a = nat] by (simp add: inj_map_eq_map)
qed simp

lemma js_Nil [simp]: "js [] = []"
  by (simp add: js_def)

lemma js_eq_Nil [simp]: "(js s = []) = (s = [])"
  by (simp add: js_def)

lemma js_append [simp]: "js a @ js b = js (a @ b)"
  by (simp add: js_def)

lemma js_append_assoc [simp]: "js a @ js b @ c = js (a @ b) @ c"
  by (simp add: js_def)

lemma length_js [simp]: "length (js s) = length s"
  by (simp add: js_def)

section \<open>The calendar\<close>

text \<open>
  \<open>YearFromTime\<close> computes what ECMAScript defines: the year in which the day of \<open>t\<close>
  lies. The estimate it starts from is within one year of it.
\<close>

lemma int_div_bounds:
  fixes x :: int
  assumes "0 < m"
  shows "m * (x div m) \<le> x \<and> x < m * (x div m) + m"
proof -
  have "x = m * (x div m) + x mod m" by simp
  moreover have "0 \<le> x mod m" "x mod m < m" using assms by simp_all
  ultimately show ?thesis by linarith
qed

lemma DayFromYear_estimate:
  "146097 * j - 506 \<le> 400 * DayFromYear (1970 + j) \<and> 400 * DayFromYear (1970 + j) \<le> 146097 * j + 589"
proof -
  define a b c where "a = (j + 1) div 4" and "b = (j + 69) div 100" and "c = (j + 369) div 400"
  have e: "1970 + j - 1970 = j" "1970 + j - 1969 = j + 1" "1970 + j - 1901 = j + 69"
    "1970 + j - 1601 = j + 369"
    by simp_all
  have a: "4 * a \<le> j + 1" "j + 1 < 4 * a + 4"
    using int_div_bounds [of 4 "j + 1"] by (simp_all add: a_def)
  have b: "100 * b \<le> j + 69" "j + 69 < 100 * b + 100"
    using int_div_bounds [of 100 "j + 69"] by (simp_all add: b_def)
  have c: "400 * c \<le> j + 369" "j + 369 < 400 * c + 400"
    using int_div_bounds [of 400 "j + 369"] by (simp_all add: c_def)
  have "DayFromYear (1970 + j) = 365 * j + a - b + c"
    unfolding DayFromYear_def e a_def b_def c_def by simp
  then show ?thesis using a b c by linarith
qed

lemma YearFromTime_bounds:
  "DayFromYear (YearFromTime t) \<le> Day t \<and> Day t < DayFromYear (YearFromTime t + 1)"
proof -
  define k where "k = (400 * Day t) div 146097"
  have k: "146097 * k \<le> 400 * Day t" "400 * Day t < 146097 * k + 146097"
    using int_div_bounds [of 146097 "400 * Day t"] by (simp_all add: k_def)
  have lo: "DayFromYear (1970 + k - 1) \<le> Day t"
    using DayFromYear_estimate [of "k - 1"] k by (simp add: algebra_simps)
  have hi: "Day t < DayFromYear (1970 + k + 1 + 1)"
    using DayFromYear_estimate [of "k + 2"] k by (simp add: algebra_simps)
  show ?thesis
    using lo hi by (simp add: YearFromTime_def Let_def k_def [symmetric])
qed

text \<open>Days.\<close>

lemma Day_bounds: "Day t * msPerDay \<le> t \<and> t < Day t * msPerDay + msPerDay"
proof -
  have "t = t div msPerDay * msPerDay + t mod msPerDay" by simp
  moreover have "0 \<le> t mod msPerDay" "t mod msPerDay < msPerDay"
    by (simp_all add: msPerDay_def)
  ultimately show ?thesis unfolding Day_def by linarith
qed

lemma Day_mono: "a \<le> b \<Longrightarrow> Day a \<le> Day b"
  unfolding Day_def by (rule zdiv_mono1) (simp_all add: msPerDay_def)

lemma Day_add_day: "Day (t + msPerDay) = Day t + 1"
  unfolding Day_def by (simp add: msPerDay_def)

lemma div_step:
  fixes x :: int
  assumes "0 < m" and "0 \<le> k" and "k \<le> m"
  shows "x div m \<le> (x + k) div m \<and> (x + k) div m \<le> x div m + 1"
proof -
  have "x div m \<le> (x + k) div m"
    using assms by (intro zdiv_mono1) simp_all
  moreover have "(x + k) div m \<le> (x + m) div m"
    using assms by (intro zdiv_mono1) simp_all
  moreover have "(x + m) div m = x div m + 1"
    using assms by simp
  ultimately show ?thesis by simp
qed

lemma DayFromYear_plus10:
  "3651 \<le> DayFromYear (y + 10) - DayFromYear y \<and> DayFromYear (y + 10) - DayFromYear y \<le> 3654"
proof -
  have a1: "(y - 1969) div 4 + 2 \<le> (y - 1969 + 10) div 4"
  proof -
    have "(y - 1969 + 8) div 4 \<le> (y - 1969 + 10) div 4" by (intro zdiv_mono1) simp_all
    moreover have "(y - 1969 + 8) div 4 = (y - 1969) div 4 + 2" by simp
    ultimately show ?thesis by simp
  qed
  have a2: "(y - 1969 + 10) div 4 \<le> (y - 1969) div 4 + 3"
  proof -
    have "(y - 1969 + 10) div 4 \<le> (y - 1969 + 12) div 4" by (intro zdiv_mono1) simp_all
    moreover have "(y - 1969 + 12) div 4 = (y - 1969) div 4 + 3" by simp
    ultimately show ?thesis by simp
  qed
  note b = div_step [of 100 10 "y - 1901"]
  note c = div_step [of 400 10 "y - 1601"]
  have e: "y + 10 - 1969 = y - 1969 + 10" "y + 10 - 1901 = y - 1901 + 10"
    "y + 10 - 1601 = y - 1601 + 10" "y + 10 - 1970 = y - 1970 + 10"
    by simp_all
  show ?thesis
    unfolding DayFromYear_def e using a1 a2 b c by simp
qed

text \<open>
  The years are laid out as ECMAScript says: a year starts \<open>DaysInYear\<close> days after the
  one before it, and \<open>YearFromTime t\<close> is the greatest year that has started by \<open>t\<close>.
\<close>

lemma div_succ:
  fixes x :: int
  assumes "1 < m"
  shows "(x + 1) div m = x div m + (if (x + 1) mod m = 0 then 1 else 0)"
proof -
  have r: "0 \<le> x mod m" "x mod m < m" using assms by simp_all
  have d: "(x + 1) div m = x div m + (x mod m + 1) div m"
    using assms div_add1_eq [of x 1 m] by simp
  have m: "(x + 1) mod m = (x mod m + 1) mod m"
    by (simp add: mod_add_left_eq)
  show ?thesis
  proof (cases "x mod m + 1 = m")
    case True
    then show ?thesis using d m assms by simp
  next
    case False
    then have lt: "x mod m + 1 < m" using r by simp
    then have "(x mod m + 1) div m = 0" "(x mod m + 1) mod m = x mod m + 1"
      using r by simp_all
    then show ?thesis using d m r by simp
  qed
qed

lemma DayFromYear_Suc: "DayFromYear (y + 1) = DayFromYear y + DaysInYear y"
proof -
  have e: "y + 1 - 1970 = y - 1970 + 1" "y + 1 - 1969 = y - 1969 + 1"
    "y + 1 - 1901 = y - 1901 + 1" "y + 1 - 1601 = y - 1601 + 1"
    by simp_all
  have "y - 1969 + 1 = y + 4 * (- 492)" "y - 1901 + 1 = y + 100 * (- 19)"
    "y - 1601 + 1 = y + 400 * (- 4)"
    by simp_all
  then have m: "(y - 1969 + 1) mod 4 = y mod 4" "(y - 1901 + 1) mod 100 = y mod 100"
    "(y - 1601 + 1) mod 400 = y mod 400"
    by (simp_all only: mod_mult_self2)
  have i1: "y mod 100 = 0" if "y mod 400 = 0"
  proof -
    have "400 dvd y" using that by (simp add: mod_eq_0_iff_dvd)
    moreover have "(100::int) dvd 400" by simp
    ultimately have "100 dvd y" by (rule dvd_trans [rotated])
    then show ?thesis by (simp add: mod_eq_0_iff_dvd)
  qed
  have i2: "y mod 4 = 0" if "y mod 100 = 0"
  proof -
    have "100 dvd y" using that by (simp add: mod_eq_0_iff_dvd)
    moreover have "(4::int) dvd 100" by simp
    ultimately have "4 dvd y" by (rule dvd_trans [rotated])
    then show ?thesis by (simp add: mod_eq_0_iff_dvd)
  qed
  have s4: "(y - 1969 + 1) div 4 = (y - 1969) div 4 + (if y mod 4 = 0 then 1 else 0)"
    using div_succ [of 4 "y - 1969"] by (simp only: m)
  have s100: "(y - 1901 + 1) div 100 = (y - 1901) div 100 + (if y mod 100 = 0 then 1 else 0)"
    using div_succ [of 100 "y - 1901"] by (simp only: m)
  have s400: "(y - 1601 + 1) div 400 = (y - 1601) div 400 + (if y mod 400 = 0 then 1 else 0)"
    using div_succ [of 400 "y - 1601"] by (simp only: m)
  show ?thesis
    unfolding DayFromYear_def DaysInYear_def e s4 s100 s400
    using i1 i2 by auto
qed

lemma DayFromYear_step: "DayFromYear y < DayFromYear (y + 1)"
proof -
  have e: "y + 1 - 1970 = y - 1970 + 1" "y + 1 - 1969 = y - 1969 + 1"
    "y + 1 - 1901 = y - 1901 + 1" "y + 1 - 1601 = y - 1601 + 1"
    by simp_all
  note a = div_step [of 4 1 "y - 1969"]
  note b = div_step [of 100 1 "y - 1901"]
  note c = div_step [of 400 1 "y - 1601"]
  show ?thesis
    unfolding DayFromYear_def e using a b c by simp
qed

lemma DayFromYear_less: "y < y' \<Longrightarrow> DayFromYear y < DayFromYear y'"
proof -
  have "DayFromYear y < DayFromYear (y + 1 + int n)" for n
  proof (induction n)
    case 0
    show ?case using DayFromYear_step [of y] by simp
  next
    case (Suc n)
    have "DayFromYear (y + 1 + int n) < DayFromYear (y + 1 + int n + 1)"
      by (rule DayFromYear_step)
    with Suc show ?case by (simp add: add.assoc)
  qed
  moreover assume "y < y'"
  then obtain n where "y' = y + 1 + int n"
    by (metis add.assoc zless_iff_Suc_zadd of_nat_Suc add.commute)
  ultimately show ?thesis by simp
qed

lemma YearFromTime_greatest: "DayFromYear y \<le> Day t \<Longrightarrow> y \<le> YearFromTime t"
proof (rule ccontr)
  assume le: "DayFromYear y \<le> Day t" and "\<not> y \<le> YearFromTime t"
  then have "YearFromTime t + 1 \<le> y" by simp
  then have "DayFromYear (YearFromTime t + 1) \<le> DayFromYear y"
    using DayFromYear_less [of "YearFromTime t + 1" y] by (cases "YearFromTime t + 1 = y") auto
  then show False using le YearFromTime_bounds [of t] by simp
qed

lemma DayWithinYear_range:
  "0 \<le> DayWithinYear t \<and> DayWithinYear t < DaysInYear (YearFromTime t)"
  using YearFromTime_bounds [of t] DayFromYear_Suc [of "YearFromTime t"]
  by (simp add: DayWithinYear_def)

lemma monthStart_leap_diff:
  "l \<in> {0, 1} \<Longrightarrow> l' \<in> {0, 1} \<Longrightarrow> \<bar>monthStart m l' - monthStart m l\<bar> \<le> 1"
  by (auto simp: monthStart_def)

lemma MonthFromTime_range: "0 \<le> MonthFromTime t \<and> MonthFromTime t \<le> 11"
  by (simp add: MonthFromTime_def Let_def)

lemma InLeapYear_range: "InLeapYear t \<in> {0, 1}"
  by (simp add: InLeapYear_def)


lemma Day_TimeWithinDay: "Day t * msPerDay + TimeWithinDay t = t"
  by (simp add: Day_def TimeWithinDay_def)

lemma MakeDay_plus10:
  "\<exists>k. MakeDay (YearFromTime t + 10) (MonthFromTime t) (DateFromTime t) = Day t + k
       \<and> 3650 \<le> k \<and> k \<le> 3655"
proof -
  let ?y = "YearFromTime t" and ?m = "MonthFromTime t"
  let ?l' = "if DaysInYear (?y + 10) = 366 then 1 else 0 :: int"
  have m: "?m div 12 = 0" "?m mod 12 = ?m"
    using MonthFromTime_range [of t] by simp_all
  have "MakeDay (?y + 10) ?m (DateFromTime t)
          = DayFromYear (?y + 10) + monthStart ?m ?l' + DateFromTime t - 1"
    by (simp add: MakeDay_def Let_def m)
  also have "\<dots> = Day t + (DayFromYear (?y + 10) - DayFromYear ?y
                        + (monthStart ?m ?l' - monthStart ?m (InLeapYear t)))"
    by (simp add: DateFromTime_def DayWithinYear_def)
  finally have eq: "MakeDay (?y + 10) ?m (DateFromTime t)
          = Day t + (DayFromYear (?y + 10) - DayFromYear ?y
                        + (monthStart ?m ?l' - monthStart ?m (InLeapYear t)))" .
  have "\<bar>monthStart ?m ?l' - monthStart ?m (InLeapYear t)\<bar> \<le> 1"
    using InLeapYear_range [of t] by (intro monthStart_leap_diff) simp_all
  then have "3650 \<le> DayFromYear (?y + 10) - DayFromYear ?y
                        + (monthStart ?m ?l' - monthStart ?m (InLeapYear t))"
    and "DayFromYear (?y + 10) - DayFromYear ?y
                        + (monthStart ?m ?l' - monthStart ?m (InLeapYear t)) \<le> 3655"
    using DayFromYear_plus10 [of ?y] by linarith+
  with eq show ?thesis by blast
qed

lemma before_startOfDay_iff:
  "Day a * msPerDay < Day b * msPerDay \<longleftrightarrow> a < Day b * msPerDay"
proof
  assume "Day a * msPerDay < Day b * msPerDay"
  then have "Day a < Day b" by (simp add: msPerDay_def)
  then have "Day a + 1 \<le> Day b" by simp
  then have "(Day a + 1) * msPerDay \<le> Day b * msPerDay" by (simp add: msPerDay_def)
  then show "a < Day b * msPerDay" using Day_bounds [of a] by (simp add: algebra_simps)
next
  assume "a < Day b * msPerDay"
  then show "Day a * msPerDay < Day b * msPerDay" using Day_bounds [of a] by linarith
qed

text \<open>
  Local midnight and the same local date ten years on, in a zone whose offsets are at
  most a day.
\<close>

lemma localMidnight_eq:
  "localMidnight e t =
     Day (LocalTime e t) * msPerDay - localTZA e (Day (LocalTime e t) * msPerDay) False"
  by (simp add: localMidnight_def UTC_def MakeDate_def)

lemma localMidnight_bounds:
  assumes "\<forall>t b. \<bar>localTZA e t b\<bar> \<le> msPerDay"
  shows "t - 3 * msPerDay < localMidnight e t \<and> localMidnight e t \<le> t + 2 * msPerDay"
proof -
  let ?d = "Day (LocalTime e t) * msPerDay"
  have o1: "\<bar>localTZA e t True\<bar> \<le> msPerDay" and o2: "\<bar>localTZA e ?d False\<bar> \<le> msPerDay"
    using assms by blast+
  have "?d \<le> LocalTime e t" "LocalTime e t < ?d + msPerDay"
    using Day_bounds [of "LocalTime e t"] by simp_all
  then show ?thesis
    using o1 o2 unfolding localMidnight_eq by (simp add: LocalTime_def) linarith
qed

lemma tenYearsFromNow_bounds:
  assumes "\<forall>t b. \<bar>localTZA e t b\<bar> \<le> msPerDay"
  shows "\<exists>T. setFullYear e t (getFullYear e t + 10) = TimeClip T
       \<and> t + 3648 * msPerDay \<le> T \<and> T \<le> t + 3657 * msPerDay"
proof -
  let ?lt = "LocalTime e t"
  obtain k where k: "MakeDay (YearFromTime ?lt + 10) (MonthFromTime ?lt) (DateFromTime ?lt) = Day ?lt + k"
    and kb: "3650 \<le> k" "k \<le> 3655"
    using MakeDay_plus10 [of ?lt] by blast
  let ?newD = "(Day ?lt + k) * msPerDay + TimeWithinDay ?lt"
  have s: "setFullYear e t (getFullYear e t + 10) = TimeClip (?newD - localTZA e ?newD False)"
    by (simp add: setFullYear_def getFullYear_def Let_def k MakeDate_def UTC_def)
  have n: "?newD = t + localTZA e t True + k * msPerDay"
    using Day_TimeWithinDay [of ?lt] by (simp add: algebra_simps LocalTime_def)
  have o1: "\<bar>localTZA e t True\<bar> \<le> msPerDay" and o2: "\<bar>localTZA e ?newD False\<bar> \<le> msPerDay"
    using assms by blast+
  have "3650 * msPerDay \<le> k * msPerDay" "k * msPerDay \<le> 3655 * msPerDay"
    using kb by (simp_all add: msPerDay_def)
  then have "t + 3648 * msPerDay \<le> ?newD - localTZA e ?newD False"
    and "?newD - localTZA e ?newD False \<le> t + 3657 * msPerDay"
    using o1 o2 unfolding n by linarith+
  with s show ?thesis by blast
qed

lemma epoch_is_past:
  assumes "\<forall>t b. \<bar>localTZA e t b\<bar> \<le> msPerDay"
      and "5 * msPerDay \<le> now1" and "now1 \<le> 8640000000000000 - 2 * msPerDay"
  shows "date_less (setHours0 e 0) (setHours0 e now1)"
proof -
  have a: "0 - 3 * msPerDay < localMidnight e 0" "localMidnight e 0 \<le> 0 + 2 * msPerDay"
    using localMidnight_bounds [OF assms(1), of 0] by simp_all
  have b: "now1 - 3 * msPerDay < localMidnight e now1" "localMidnight e now1 \<le> now1 + 2 * msPerDay"
    using localMidnight_bounds [OF assms(1), of now1] by simp_all
  have "setHours0 e 0 = Some (localMidnight e 0)"
    using a by (simp add: setHours0_def TimeClip_def msPerDay_def)
  moreover have "setHours0 e now1 = Some (localMidnight e now1)"
    using b assms(2,3) by (simp add: setHours0_def TimeClip_def msPerDay_def)
  moreover have "localMidnight e 0 < localMidnight e now1"
    using a b assms(2) by linarith
  ultimately show ?thesis by (simp add: date_less_def)
qed

text \<open>
  A zone keeps its days in order when the local day never goes back as time goes on, and
  local midnight of a day is an instant of that day, no later than any other. Every
  zone with one offset does.
\<close>

lemma fixed_offset_days:
  assumes "\<forall>t b. localTZA e t b = z"
  shows "(\<forall>a b. a \<le> b \<longrightarrow> Day (LocalTime e a) \<le> Day (LocalTime e b))
       \<and> (\<forall>a. localMidnight e a \<le> a
               \<and> Day (LocalTime e (localMidnight e a)) = Day (LocalTime e a))"
proof -
  have l: "LocalTime e t = t + z" for t using assms by (simp add: LocalTime_def)
  have m: "localMidnight e t = Day (t + z) * msPerDay - z" for t
    using assms by (simp add: localMidnight_eq l)
  have "Day (LocalTime e a) \<le> Day (LocalTime e b)" if "a \<le> b" for a b
    using that by (simp add: l Day_mono)
  moreover have "localMidnight e a \<le> a" for a
    using Day_bounds [of "a + z"] by (simp add: m)
  moreover have "Day (LocalTime e (localMidnight e a)) = Day (LocalTime e a)" for a
    by (simp add: l m Day_def msPerDay_def)
  ultimately show ?thesis by blast
qed

lemma localMidnight_less_iff:
  assumes mono: "\<forall>a b. a \<le> b \<longrightarrow> Day (LocalTime e a) \<le> Day (LocalTime e b)"
      and mid: "\<forall>a. localMidnight e a \<le> a
               \<and> Day (LocalTime e (localMidnight e a)) = Day (LocalTime e a)"
  shows "localMidnight e d < localMidnight e n \<longleftrightarrow> d < localMidnight e n"
proof
  assume lt: "localMidnight e d < localMidnight e n"
  show "d < localMidnight e n"
  proof (rule ccontr)
    assume "\<not> d < localMidnight e n"
    then have "localMidnight e n \<le> d" by simp
    then have "Day (LocalTime e (localMidnight e n)) \<le> Day (LocalTime e d)"
      using mono by blast
    then have le: "Day (LocalTime e n) \<le> Day (LocalTime e d)" using mid by simp
    have "\<not> localMidnight e d \<le> localMidnight e n \<or> Day (LocalTime e d) \<le> Day (LocalTime e n)"
      using mono [rule_format, of "localMidnight e d" "localMidnight e n"] mid by auto
    with lt have "Day (LocalTime e d) \<le> Day (LocalTime e n)" by simp
    with le have "Day (LocalTime e d) = Day (LocalTime e n)" by simp
    then have "localMidnight e d = localMidnight e n" by (simp add: localMidnight_def)
    with lt show False by simp
  qed
next
  assume "d < localMidnight e n"
  moreover have "localMidnight e d \<le> d" using mid by blast
  ultimately show "localMidnight e d < localMidnight e n" by simp
qed

section \<open>The due date validator\<close>

text \<open>
  C5, as the code has it. Let a due date that is neither \<^verbatim>\<open>undefined\<close> nor \<^verbatim>\<open>null\<close> denote
  the valid time value \<open>date\<close>, let \<open>today\<close> be the start of the current local day
  (\<^verbatim>\<open>now.setHours(0, 0, 0, 0)\<close>) and \<open>ten\<close> the instant ten years after the second clock
  reading (same local date and time of day, year plus ten). In a zone that keeps its
  days in order, with offsets of at most a day, \<^verbatim>\<open>validateDueDate\<close> returns the past-date
  error exactly when \<open>date < today\<close>, the too-far-future error exactly when
  \<open>ten < date\<close>, a comparison of instants to the millisecond and not of calendar days,
  and no error otherwise; a due date whose instant lies on the current local day is
  accepted at every time of day. The other hypotheses keep the clock and the date inside
  the range of time values in which the start of a day and the date ten years on are
  representable.
\<close>

theorem validateDueDate_verdicts:
  assumes v: "v \<noteq> JUndefined" "v \<noteq> JNull" and d: "newDate e v = Inr (Some date)"
      and off: "\<forall>t b. \<bar>localTZA e t b\<bar> \<le> msPerDay"
      and mono: "\<forall>a b. a \<le> b \<longrightarrow> Day (LocalTime e a) \<le> Day (LocalTime e b)"
      and mid: "\<forall>a. localMidnight e a \<le> a
                  \<and> Day (LocalTime e (localMidnight e a)) = Day (LocalTime e a)"
      and clock: "0 \<le> now1" "now1 \<le> now2" "now2 \<le> 8000000000000000"
      and range: "- 8640000000000000 + 3 * msPerDay \<le> date" "date \<le> 8640000000000000"
  shows "\<exists>today ten.
           setHours0 e now1 = Some today
         \<and> setFullYear e now2 (getFullYear e now2 + 10) = Some ten
         \<and> (validateDueDate e now1 now2 v
               = Inr (Some \<lparr>field = js ''dueDate'',
                            message = js ''Due date must be today or in the future''\<rparr>)
             \<longleftrightarrow> date < today)
         \<and> (validateDueDate e now1 now2 v
               = Inr (Some \<lparr>field = js ''dueDate'',
                            message = js ''Due date must not be more than 10 years in the future''\<rparr>)
             \<longleftrightarrow> ten < date)
         \<and> (validateDueDate e now1 now2 v = Inr None \<longleftrightarrow> today \<le> date \<and> date \<le> ten)
         \<and> (Day (LocalTime e date) = Day (LocalTime e now1)
               \<longrightarrow> validateDueDate e now1 now2 v = Inr None)"
proof -
  let ?today = "localMidnight e now1"
  let ?dueDay = "localMidnight e date"
  have tb: "?today \<le> now1" "now1 - 3 * msPerDay < ?today"
    using mid localMidnight_bounds [OF off, of now1] by simp_all
  have db: "?dueDay \<le> date" "date - 3 * msPerDay < ?dueDay"
    using mid localMidnight_bounds [OF off, of date] by simp_all
  have today: "setHours0 e now1 = Some ?today"
    using tb clock by (simp add: setHours0_def TimeClip_def msPerDay_def)
  have dueDay: "setHours0 e date = Some ?dueDay"
    using db range by (simp add: setHours0_def TimeClip_def msPerDay_def)
  obtain ten where ten: "setFullYear e now2 (getFullYear e now2 + 10) = TimeClip ten"
    and tenb: "now2 + 3648 * msPerDay \<le> ten" "ten \<le> now2 + 3657 * msPerDay"
    using tenYearsFromNow_bounds [OF off, of now2] by blast
  have ten': "setFullYear e now2 (getFullYear e now2 + 10) = Some ten"
    using tenb clock by (simp add: ten TimeClip_def msPerDay_def)
  have past: "?dueDay < ?today \<longleftrightarrow> date < ?today"
    by (rule localMidnight_less_iff [OF mono mid])
  have far: "ten < date \<Longrightarrow> \<not> date < ?today"
    using tb tenb clock by (simp add: msPerDay_def)
  have same: "\<not> date < ?today \<and> \<not> ten < date"
    if "Day (LocalTime e date) = Day (LocalTime e now1)"
  proof -
    have "?dueDay = ?today" using that by (simp add: localMidnight_def)
    then show ?thesis using db tb tenb clock by (simp add: msPerDay_def)
  qed
  have val: "validateDueDate e now1 now2 v =
      (if date < ?today
       then Inr (Some \<lparr>field = js ''dueDate'',
                        message = js ''Due date must be today or in the future''\<rparr>)
       else if ten < date
       then Inr (Some \<lparr>field = js ''dueDate'',
                  message = js ''Due date must not be more than 10 years in the future''\<rparr>)
       else Inr None)"
    using v by (simp add: validateDueDate_def d Let_def today dueDay ten' date_less_def past)
  show ?thesis
    using today ten' far same by (auto simp: val)
qed

lemma example_offsets: "localTZA exampleEnv t b = 0"
  by (simp add: exampleEnv_def)

lemma example_today: "setHours0 exampleEnv 1000 = Some 0"
  by (simp add: setHours0_def localMidnight_eq LocalTime_def example_offsets Day_def msPerDay_def
      TimeClip_def)

lemma example_tenYears:
  "setFullYear exampleEnv 1000 (getFullYear exampleEnv 1000 + 10) = Some 315532801000"
  by code_simp

text \<open>
  The hypotheses on the zone hold where the offset changes away from midnight, as in
  New York in 2026. There the date ten years on is taken with the offset of its own
  day: at 12:00 UTC on 8 March 2026, the first day of daylight saving, it is 13:00 UTC
  on 8 March 2036, and a due date just after 12:00 UTC of that day is accepted.
\<close>

lemma Day_eqI: "d * msPerDay \<le> t \<Longrightarrow> t < d * msPerDay + msPerDay \<Longrightarrow> Day t = d"
  using Day_bounds [of t] unfolding msPerDay_def by linarith

lemma dst_offsets:
  "localTZA dstEnv t True
     = (if 1772953200000 \<le> t \<and> t < 1793512800000 then - 14400000 else - 18000000)"
  "localTZA dstEnv t False
     = (if 1772938800000 \<le> t \<and> t < 1793498400000 then - 14400000 else - 18000000)"
  by (simp_all add: dstEnv_def)

lemma dst_days:
  "(\<forall>a b. a \<le> b \<longrightarrow> Day (LocalTime dstEnv a) \<le> Day (LocalTime dstEnv b))
   \<and> (\<forall>a. localMidnight dstEnv a \<le> a
          \<and> Day (LocalTime dstEnv (localMidnight dstEnv a)) = Day (LocalTime dstEnv a))"
proof -
  have mono: "Day (LocalTime dstEnv a) \<le> Day (LocalTime dstEnv b)" if "a \<le> b" for a b
  proof (cases "1772953200000 \<le> a \<and> a < 1793512800000 \<and> 1793512800000 \<le> b")
    case True
    have "LocalTime dstEnv a \<le> 1793498399999"
      using True by (simp add: LocalTime_def dst_offsets)
    then have "Day (LocalTime dstEnv a) \<le> Day 1793498399999" by (rule Day_mono)
    moreover have "1793494800000 \<le> LocalTime dstEnv b"
      using True by (simp add: LocalTime_def dst_offsets)
    then have "Day 1793494800000 \<le> Day (LocalTime dstEnv b)" by (rule Day_mono)
    moreover have "Day 1793498399999 = 20758" "Day 1793494800000 = 20758"
      by (simp_all add: Day_def msPerDay_def)
    ultimately show ?thesis by linarith
  next
    case False
    then have "LocalTime dstEnv a \<le> LocalTime dstEnv b"
      using that by (auto simp: LocalTime_def dst_offsets)
    then show ?thesis by (rule Day_mono)
  qed
  have mid: "localMidnight dstEnv a \<le> a
          \<and> Day (LocalTime dstEnv (localMidnight dstEnv a)) = Day (LocalTime dstEnv a)" for a
  proof -
    define D where "D = Day (LocalTime dstEnv a)"
    define M where "M = D * 86400000"
    define o1 where "o1 = localTZA dstEnv a True"
    have o1: "o1 = (if 1772953200000 \<le> a \<and> a < 1793512800000 then - 14400000 else - 18000000)"
      by (simp add: o1_def dst_offsets)
    have Db: "M \<le> a + o1" "a + o1 < M + 86400000"
      using Day_bounds [of "LocalTime dstEnv a"]
      by (simp_all add: D_def M_def msPerDay_def LocalTime_def o1_def)
    define o2 where "o2 = localTZA dstEnv M False"
    have o2: "o2 = (if 1772938800000 \<le> M \<and> M < 1793498400000 then - 14400000 else - 18000000)"
      by (simp add: o2_def dst_offsets)
    have lm: "localMidnight dstEnv a = M - o2"
      by (simp add: localMidnight_eq D_def M_def msPerDay_def o2_def)
    define o3 where "o3 = localTZA dstEnv (M - o2) True"
    have o3: "o3 = (if 1772953200000 \<le> M - o2 \<and> M - o2 < 1793512800000
                    then - 14400000 else - 18000000)"
      by (simp add: o3_def dst_offsets)
    consider "D \<le> 20519" | "D = 20520" | "20521 \<le> D \<and> D \<le> 20757" | "D = 20758" | "20759 \<le> D"
      by linarith
    then have r: "M - o2 \<le> a \<and> M \<le> M - o2 + o3 \<and> M - o2 + o3 < M + 86400000"
    proof cases
      case 1
      then have "M \<le> 1772841600000" by (simp add: M_def)
      then show ?thesis using Db by (auto simp: o1 o2 o3 split: if_splits)
    next
      case 2
      then have "M = 1772928000000" by (simp add: M_def)
      then show ?thesis using Db by (auto simp: o1 o2 o3 split: if_splits)
    next
      case 3
      then have "1773014400000 \<le> M" "M \<le> 1793404800000" by (simp_all add: M_def)
      then show ?thesis using Db by (auto simp: o1 o2 o3 split: if_splits)
    next
      case 4
      then have "M = 1793491200000" by (simp add: M_def)
      then show ?thesis using Db by (auto simp: o1 o2 o3 split: if_splits)
    next
      case 5
      then have "1793577600000 \<le> M" by (simp add: M_def)
      then show ?thesis using Db by (auto simp: o1 o2 o3 split: if_splits)
    qed
    have lt: "LocalTime dstEnv (localMidnight dstEnv a) = M - o2 + o3"
      by (simp add: lm LocalTime_def o3_def)
    have dm: "D * msPerDay = M" by (simp add: M_def msPerDay_def)
    have "Day (LocalTime dstEnv (localMidnight dstEnv a)) = D"
      unfolding lt by (rule Day_eqI) (use r in \<open>simp_all add: dm, simp add: msPerDay_def\<close>)
    then show ?thesis using r by (simp add: lm D_def)
  qed
  show ?thesis using mono mid by blast
qed

lemma dst_today: "setHours0 dstEnv 1772971200000 = Some 1772946000000"
  by code_simp

lemma dst_tenYears:
  "setFullYear dstEnv 1772971200000 (getFullYear dstEnv 1772971200000 + 10) = Some 2088594000000"
  by code_simp

theorem validateDueDate_verdicts_witness:
  "setHours0 exampleEnv 1000 = Some 0
   \<and> setFullYear exampleEnv 1000 (getFullYear exampleEnv 1000 + 10) = Some 315532801000
   \<and> validateDueDate exampleEnv 1000 1000 (JNum (Finite 500)) = Inr None
   \<and> validateDueDate exampleEnv 1000 1000 (JNum (Finite (- 5)))
       = Inr (Some \<lparr>field = js ''dueDate'', message = js ''Due date must be today or in the future''\<rparr>)
   \<and> validateDueDate exampleEnv 1000 1000 (JNum (Finite 315532801001))
       = Inr (Some \<lparr>field = js ''dueDate'',
               message = js ''Due date must not be more than 10 years in the future''\<rparr>)
   \<and> setHours0 dstEnv 1772971200000 = Some 1772946000000
   \<and> setFullYear dstEnv 1772971200000 (getFullYear dstEnv 1772971200000 + 10)
       = Some 2088594000000
   \<and> validateDueDate dstEnv 1772971200000 1772971200000 (JNum (Finite 2088590400001)) = Inr None
   \<and> validateDueDate dstEnv 1772971200000 1772971200000 (JNum (Finite 2088594000001))
       = Inr (Some \<lparr>field = js ''dueDate'',
               message = js ''Due date must not be more than 10 years in the future''\<rparr>)"
proof -
  have off: "\<forall>t b. \<bar>localTZA exampleEnv t b\<bar> \<le> msPerDay"
    by (simp add: example_offsets msPerDay_def)
  have fixed: "\<forall>t b. localTZA exampleEnv t b = 0" by (simp add: example_offsets)
  note days = fixed_offset_days [OF fixed]
  have mono: "\<forall>a b. a \<le> b \<longrightarrow> Day (LocalTime exampleEnv a) \<le> Day (LocalTime exampleEnv b)"
    using days by blast
  have mid: "\<forall>a. localMidnight exampleEnv a \<le> a
        \<and> Day (LocalTime exampleEnv (localMidnight exampleEnv a)) = Day (LocalTime exampleEnv a)"
    using days by blast
  have n: "newDate exampleEnv (JNum (Finite 500)) = Inr (Some 500)"
    "newDate exampleEnv (JNum (Finite (- 5))) = Inr (Some (- 5))"
    "newDate exampleEnv (JNum (Finite 315532801001)) = Inr (Some 315532801001)"
    by (simp_all add: newDate_def)
  have a: "validateDueDate exampleEnv 1000 1000 (JNum (Finite 500)) = Inr None"
    using validateDueDate_verdicts [OF _ _ n(1) off mono mid, of 1000 1000]
      example_today example_tenYears
    by (simp add: msPerDay_def)
  have b: "validateDueDate exampleEnv 1000 1000 (JNum (Finite (- 5)))
       = Inr (Some \<lparr>field = js ''dueDate'', message = js ''Due date must be today or in the future''\<rparr>)"
    using validateDueDate_verdicts [OF _ _ n(2) off mono mid, of 1000 1000]
      example_today example_tenYears
    by (simp add: msPerDay_def)
  have c: "validateDueDate exampleEnv 1000 1000 (JNum (Finite 315532801001))
       = Inr (Some \<lparr>field = js ''dueDate'',
               message = js ''Due date must not be more than 10 years in the future''\<rparr>)"
    using validateDueDate_verdicts [OF _ _ n(3) off mono mid, of 1000 1000]
      example_today example_tenYears
    by (simp add: msPerDay_def)
  have doff: "\<forall>t b. \<bar>localTZA dstEnv t b\<bar> \<le> msPerDay"
  proof (intro allI)
    fix t b show "\<bar>localTZA dstEnv t b\<bar> \<le> msPerDay"
      by (cases b) (simp_all add: dst_offsets msPerDay_def)
  qed
  have dmono: "\<forall>a b. a \<le> b \<longrightarrow> Day (LocalTime dstEnv a) \<le> Day (LocalTime dstEnv b)"
    using dst_days by blast
  have dmid: "\<forall>a. localMidnight dstEnv a \<le> a
        \<and> Day (LocalTime dstEnv (localMidnight dstEnv a)) = Day (LocalTime dstEnv a)"
    using dst_days by blast
  have dn: "newDate dstEnv (JNum (Finite 2088590400001)) = Inr (Some 2088590400001)"
    "newDate dstEnv (JNum (Finite 2088594000001)) = Inr (Some 2088594000001)"
    by (simp_all add: newDate_def)
  have d: "validateDueDate dstEnv 1772971200000 1772971200000 (JNum (Finite 2088590400001))
       = Inr None"
    using validateDueDate_verdicts [OF _ _ dn(1) doff dmono dmid, of 1772971200000 1772971200000]
      dst_today dst_tenYears
    by (simp add: msPerDay_def)
  have f: "validateDueDate dstEnv 1772971200000 1772971200000 (JNum (Finite 2088594000001))
       = Inr (Some \<lparr>field = js ''dueDate'',
               message = js ''Due date must not be more than 10 years in the future''\<rparr>)"
    using validateDueDate_verdicts [OF _ _ dn(2) doff dmono dmid, of 1772971200000 1772971200000]
      dst_today dst_tenYears
    by (simp add: msPerDay_def)
  show ?thesis
    using a b c d f example_today example_tenYears dst_today dst_tenYears by simp
qed

text \<open>
  C5 as stated fails in two places. The second comparison is not by calendar day: with
  the clock at one second past the epoch (UTC), two due dates on the same calendar day,
  1 January 1980, half a second before and half a second after the instant ten years
  on, get different verdicts. And today's date is not always accepted: on a server seven
  hours west of UTC, at 11:00 local time on 2 November 2026, the due date
  \<^verbatim>\<open>2026-11-02\<close> is midnight UTC, an instant of the local day before, and is rejected
  as past.
\<close>

lemma west_offsets: "localTZA westEnv t b = - 25200000"
  by (simp add: westEnv_def)

lemma west_today:
  "YearFromTime (LocalTime westEnv 1793642400000) = 2026
   \<and> MonthFromTime (LocalTime westEnv 1793642400000) = 10
   \<and> DateFromTime (LocalTime westEnv 1793642400000) = 2"
  by code_simp

lemma date_only_2026_11_02: "MakeDate (MakeDay 2026 10 2) 0 = 1793577600000"
  by code_simp

theorem validateDueDate_not_by_day_counterexample:
  "Day (LocalTime exampleEnv 315532800500) = Day (LocalTime exampleEnv 315532801500)
   \<and> validateDueDate exampleEnv 1000 1000 (JNum (Finite 315532800500)) = Inr None
   \<and> validateDueDate exampleEnv 1000 1000 (JNum (Finite 315532801500))
       = Inr (Some \<lparr>field = js ''dueDate'',
               message = js ''Due date must not be more than 10 years in the future''\<rparr>)
   \<and> DateFromTime (LocalTime westEnv 1793642400000) = 2
   \<and> validateDueDate westEnv 1793642400000 1793642400000 (JStr (js ''2026-11-02''))
       = Inr (Some \<lparr>field = js ''dueDate'', message = js ''Due date must be today or in the future''\<rparr>)"
proof -
  have n: "newDate exampleEnv (JNum (Finite 315532800500)) = Inr (Some 315532800500)"
    "newDate exampleEnv (JNum (Finite 315532801500)) = Inr (Some 315532801500)"
    by (simp_all add: newDate_def)
  have s: "setHours0 exampleEnv 315532800500 = Some 315532800000"
    "setHours0 exampleEnv 315532801500 = Some 315532800000"
    by (simp_all add: setHours0_def localMidnight_eq LocalTime_def example_offsets Day_def
        msPerDay_def TimeClip_def)
  have utc: "Day (LocalTime exampleEnv 315532800500) = Day (LocalTime exampleEnv 315532801500)
     \<and> validateDueDate exampleEnv 1000 1000 (JNum (Finite 315532800500)) = Inr None
     \<and> validateDueDate exampleEnv 1000 1000 (JNum (Finite 315532801500))
       = Inr (Some \<lparr>field = js ''dueDate'',
               message = js ''Due date must not be more than 10 years in the future''\<rparr>)"
    by (simp add: validateDueDate_def n s example_today example_tenYears Let_def date_less_def
        LocalTime_def Day_def msPerDay_def example_offsets)
  have wn: "newDate westEnv (JStr (js ''2026-11-02'')) = Inr (Some 1793577600000)"
    by (simp add: newDate_def westEnv_def TimeClip_def)
  have ws: "setHours0 westEnv 1793577600000 = Some 1793516400000"
    "setHours0 westEnv 1793642400000 = Some 1793602800000"
    by (simp_all add: setHours0_def localMidnight_eq LocalTime_def west_offsets Day_def
        msPerDay_def TimeClip_def)
  have west: "validateDueDate westEnv 1793642400000 1793642400000 (JStr (js ''2026-11-02''))
       = Inr (Some \<lparr>field = js ''dueDate'', message = js ''Due date must be today or in the future''\<rparr>)"
    by (simp add: validateDueDate_def wn ws Let_def date_less_def)
  show ?thesis using utc west west_today by simp
qed

text \<open>
  The lower bound on the due date cannot be dropped. In a zone one hour east of UTC the
  earliest time value there is has a local start of day that is no time value, so
  \<^verbatim>\<open>dueDateOnly\<close> is an invalid date, the comparison with it is false, and the validator
  accepts a due date some 270000 years in the past.
\<close>

lemma validateDueDate_start_of_day_out_of_range:
  "validateDueDate (exampleEnv\<lparr>localTZA := (\<lambda>t isUTC. 3600000)\<rparr>) 1000 1000
     (JNum (Finite (- 8640000000000000))) = Inr None"
proof -
  let ?e = "exampleEnv\<lparr>localTZA := (\<lambda>t isUTC. 3600000)\<rparr>"
  have off: "\<forall>t b. \<bar>localTZA ?e t b\<bar> \<le> msPerDay" by (simp add: msPerDay_def)
  have n: "newDate ?e (JNum (Finite (- 8640000000000000))) = Inr (Some (- 8640000000000000))"
    by (simp add: newDate_def)
  have s: "setHours0 ?e (- 8640000000000000) = None"
    by (simp add: setHours0_def localMidnight_eq LocalTime_def Day_def msPerDay_def TimeClip_def)
  obtain T where T: "setFullYear ?e 1000 (getFullYear ?e 1000 + 10) = TimeClip T"
    and "1000 + 3648 * msPerDay \<le> T"
    using tenYearsFromNow_bounds [OF off, of 1000] by blast
  then have t: "\<not> date_less (setFullYear ?e 1000 (getFullYear ?e 1000 + 10))
                  (Some (- 8640000000000000))"
    by (simp add: TimeClip_def date_less_def msPerDay_def)
  show ?thesis
    using t by (simp add: validateDueDate_def n s Let_def date_less_def [of None])
qed

section \<open>The error handler and the routes\<close>

text \<open>
  What each route answers, by the outcome of its handlers in order; and the answers of
  the error handler: 400 with the list of errors for a validation failure, 500 with the
  message for anything else that was thrown.
\<close>

lemma run_router_post:
  "run (router_post e now1 now2 uuid created updated) req tasks =
     (case validateCreateTask e now1 now2 req of
        Next req' \<Rightarrow>
          (case taskStore_createTask e uuid created updated (body req') tasks of
             Inl err \<Rightarrow> (Some (errorHandler err), tasks)
           | Inr (newTask, tasks') \<Rightarrow>
               (Some (JsonResponse 201
                        (TaskBody (Some (js ''Task created successfully'')) newTask)),
                tasks'))
      | NextError err \<Rightarrow> (Some (errorHandler err), tasks)
      | Send res \<Rightarrow> (Some res, tasks))"
  by (simp add: router_post_def middleware_def createTask_def
      split: outcome.splits prod.splits sum.splits)

lemma run_router_put_id:
  "run (router_put_id e now1 now2 now3) req tasks =
     (case validateTaskId req of
        Next req1 \<Rightarrow>
          (case validateUpdateTask e now1 now2 req1 of
             Next req2 \<Rightarrow>
               (case updateTask e now3 req2 tasks of
                  (Next r, tasks') \<Rightarrow> (None, tasks')
                | (NextError err, tasks') \<Rightarrow> (Some (errorHandler err), tasks')
                | (Send res, tasks') \<Rightarrow> (Some res, tasks'))
           | NextError err \<Rightarrow> (Some (errorHandler err), tasks)
           | Send res \<Rightarrow> (Some res, tasks))
      | NextError err \<Rightarrow> (Some (errorHandler err), tasks)
      | Send res \<Rightarrow> (Some res, tasks))"
  by (simp add: router_put_id_def middleware_def split: outcome.splits prod.splits)

lemma validateTaskId_valid:
  "getProp (params req) ''id'' = JStr s \<Longrightarrow> regex_test uuidRegex s \<Longrightarrow> validateTaskId req = Next req"
  by (auto simp: validateTaskId_def Let_def truthy_def typeof_def regex_test_def uuidRegex_def)

lemma uuid_example_valid: "regex_test uuidRegex (js ''f9312e7d-1d33-43e2-9145-3bafac1199dd'')"
  by code_simp

lemma uuid_example_id:
  "validateTaskId \<lparr>params = [js ''id'' \<mapsto> JStr (js ''f9312e7d-1d33-43e2-9145-3bafac1199dd'')], body = b\<rparr>
     = Next \<lparr>params = [js ''id'' \<mapsto> JStr (js ''f9312e7d-1d33-43e2-9145-3bafac1199dd'')], body = b\<rparr>"
  by (rule validateTaskId_valid [OF _ uuid_example_valid]) (simp add: getProp_def)

lemma errorHandler_ValidationError:
  "errors \<noteq> [] \<Longrightarrow> errorHandler (ValidationError errors) = JsonResponse 400 (ValidationBody errors)"
  by (simp add: errorHandler_def)

lemma errorHandler_TypeError:
  "errorHandler (TypeError msg)
     = JsonResponse 500 (ErrorBody (if msg = [] then js ''Internal Server Error'' else msg) 500)"
  by (simp add: errorHandler_def)


section \<open>The validation aggregator\<close>

lemma validateDueDate_Inr:
  "validateDueDate e now1 now2 v = Inr r \<Longrightarrow>
     v = JUndefined \<or> v = JNull \<or> (\<exists>d. newDate e v = Inr d)"
  by (auto simp: validateDueDate_def split: if_splits sum.splits)

lemma validateDueDate_Inl:
  "validateDueDate e now1 now2 v = Inl err \<longleftrightarrow>
     v \<noteq> JUndefined \<and> v \<noteq> JNull \<and> newDate e v = Inl err"
  by (auto simp: validateDueDate_def Let_def split: if_splits sum.splits option.splits)

lemma newDate_throws_iff:
  "newDate e v = Inl err \<longleftrightarrow>
     err = TypeError (typeErrorMessage e) \<and> ((\<exists>xs. v = JArr xs) \<or> (\<exists>ps. v = JObj ps))
     \<and> ToString e v = None"
  by (cases v) (auto simp: newDate_def split: jsnum.splits option.splits)

text \<open>
  What the aggregators do on every payload. When \<^verbatim>\<open>new Date(dueDate)\<close> throws, the
  \<^verbatim>\<open>TypeError\<close> is what reaches \<^verbatim>\<open>next\<close>, and the errors collected before it are dropped.
  Otherwise each validator's error is in the one \<open>ValidationError\<close>, in the order title,
  description, status, priority, dueDate, and the request is passed on exactly when
  there is none.
\<close>

lemma validateCreateTask_outcome:
  "(let b = body req in
    case validateDueDate e now1 now2 (getProp b ''dueDate'') of
      Inl err \<Rightarrow> validateCreateTask e now1 now2 req = NextError err
    | Inr dueDateError \<Rightarrow>
        (let errors = [d. Some d \<leftarrow>
                         [validateTitle (getProp b ''title''),
                          validateDescription (getProp b ''description''),
                          validateStatus (getProp b ''status''),
                          validatePriority (getProp b ''priority''),
                          dueDateError]]
         in (errors \<noteq> [] \<longrightarrow>
               validateCreateTask e now1 now2 req = NextError (ValidationError errors))
          \<and> (errors = [] \<longrightarrow> (\<exists>req'. validateCreateTask e now1 now2 req = Next req'))))"
proof (cases "validateDueDate e now1 now2 (getProp (body req) ''dueDate'')")
  case (Inl err)
  then show ?thesis by (simp add: validateCreateTask_def Let_def)
next
  case (Inr r)
  show ?thesis
    using Inr validateDueDate_Inr [OF Inr]
    by (auto simp: validateCreateTask_def Let_def pushError_def truthy_def
        split: option.splits sum.splits)
qed

lemma validateUpdateTask_outcome:
  "(let b = body req;
        present = (\<lambda>k. getProp b k \<noteq> JUndefined)
    in if \<not> present ''title'' \<and> \<not> present ''description'' \<and> \<not> present ''status''
          \<and> \<not> present ''priority'' \<and> \<not> present ''dueDate''
       then validateUpdateTask e now1 now2 req =
              NextError (ValidationError
                [\<lparr>field = js ''body'',
                  message = js ''At least one field (title, description, status, priority, or dueDate) must be provided for update''\<rparr>])
       else
         case (if present ''dueDate'' then validateDueDate e now1 now2 (getProp b ''dueDate'')
               else Inr None) of
           Inl err \<Rightarrow> validateUpdateTask e now1 now2 req = NextError err
         | Inr dueDateError \<Rightarrow>
             (let errors = [d. Some d \<leftarrow>
                    [if present ''title'' then validateTitle (getProp b ''title'') else None,
                     if present ''description'' then validateDescription (getProp b ''description'') else None,
                     if present ''status'' then validateStatus (getProp b ''status'') else None,
                     if present ''priority'' then validatePriority (getProp b ''priority'') else None,
                     dueDateError]]
              in (errors \<noteq> [] \<longrightarrow>
                    validateUpdateTask e now1 now2 req = NextError (ValidationError errors))
               \<and> (errors = [] \<longrightarrow> (\<exists>req'. validateUpdateTask e now1 now2 req = Next req'))))"
proof (cases "getProp (body req) ''dueDate'' = JUndefined")
  case True
  then show ?thesis
    by (simp add: validateUpdateTask_def Let_def pushError_def split: option.splits)
next
  case False
  show ?thesis
  proof (cases "validateDueDate e now1 now2 (getProp (body req) ''dueDate'')")
    case (Inl err)
    then show ?thesis using False by (simp add: validateUpdateTask_def Let_def)
  next
    case (Inr r)
    have "\<exists>d. newDate e (getProp (body req) ''dueDate'') = Inr d"
      using validateDueDate_Inr [OF Inr] False
      by (auto simp: newDate_def)
    then show ?thesis
      using Inr False
      by (auto simp: validateUpdateTask_def Let_def pushError_def split: option.splits)
  qed
qed

lemma example_typeErrorMessage:
  "typeErrorMessage exampleEnv = js ''Cannot convert object to primitive value''"
  by (simp add: exampleEnv_def)

lemma newDate_toString_object:
  "newDate e (JObj [(js ''toString'', x)]) = Inl (TypeError (typeErrorMessage e))"
  by (simp add: newDate_def)

text \<open>
  C6. Create-mode validation is to run the five validators and to raise one validation
  failure that lists every error. It does not on the payload
  \<^verbatim>\<open>{"title": "", "status": "bogus", "dueDate": {"toString": 1}}\<close>: the title and the
  status each have an error, but \<^verbatim>\<open>new Date(dueDate)\<close> in \<^verbatim>\<open>validateDueDate\<close> throws a
  \<^verbatim>\<open>TypeError\<close> on an object whose own \<^verbatim>\<open>toString\<close> is not a function. The \<^verbatim>\<open>catch\<close> of
  \<^verbatim>\<open>validateCreateTask\<close> passes the \<^verbatim>\<open>TypeError\<close> to \<^verbatim>\<open>next\<close>, the two errors are dropped, and
  the create route answers 500 with the message of the \<^verbatim>\<open>TypeError\<close>, not 400 with the
  list.
\<close>

theorem validateCreateTask_TypeError_drops_errors:
  "(let req = \<lparr>params = Map.empty,
                body = [js ''title'' \<mapsto> JStr (js ''''), js ''status'' \<mapsto> JStr (js ''bogus''),
                        js ''dueDate'' \<mapsto> JObj [(js ''toString'', JNum (Finite 1))]]\<rparr>
    in validateTitle (getProp (body req) ''title'')
         = Some \<lparr>field = js ''title'', message = js ''Title must be at least 3 characters long''\<rparr>
     \<and> validateStatus (getProp (body req) ''status'')
         = Some \<lparr>field = js ''status'',
                 message = js ''Status must be one of: pending, in-progress, completed, blocked''\<rparr>
     \<and> validateCreateTask exampleEnv 0 0 req
         = NextError (TypeError (js ''Cannot convert object to primitive value''))
     \<and> run (router_post exampleEnv 0 0 (js ''f9312e7d-1d33-43e2-9145-3bafac1199dd'') 0 0) req Map.empty
         = (Some (JsonResponse 500
                    (ErrorBody (js ''Cannot convert object to primitive value'') 500)),
            Map.empty))"
proof -
  let ?req = "\<lparr>params = Map.empty,
                body = [js ''title'' \<mapsto> JStr (js ''''), js ''status'' \<mapsto> JStr (js ''bogus''),
                        js ''dueDate'' \<mapsto> JObj [(js ''toString'', JNum (Finite 1))]]\<rparr>"
  have t: "validateTitle (getProp (body ?req) ''title'')
         = Some \<lparr>field = js ''title'', message = js ''Title must be at least 3 characters long''\<rparr>"
    by (simp add: getProp_def validateTitle_def trim_def)
  have s: "validateStatus (getProp (body ?req) ''status'')
         = Some \<lparr>field = js ''status'',
                 message = js ''Status must be one of: pending, in-progress, completed, blocked''\<rparr>"
    by (simp add: getProp_def validateStatus_def array_includes_def validStatuses_def)
  have v: "validateCreateTask exampleEnv 0 0 ?req
         = NextError (TypeError (js ''Cannot convert object to primitive value''))"
    by (simp add: validateCreateTask_def Let_def getProp_def validateDueDate_def
        newDate_toString_object example_typeErrorMessage)
  have r: "run (router_post exampleEnv 0 0 (js ''f9312e7d-1d33-43e2-9145-3bafac1199dd'') 0 0) ?req Map.empty
         = (Some (JsonResponse 500
                    (ErrorBody (js ''Cannot convert object to primitive value'') 500)),
            Map.empty)"
    by (subst run_router_post, subst v) (simp add: errorHandler_TypeError)
  show ?thesis
    unfolding Let_def using t s v r by (intro conjI)
qed

text \<open>
  C7. Update-mode validation is to validate each field that the payload has and to raise
  one validation failure that lists every error. It does not on the payload
  \<^verbatim>\<open>{"title": "", "dueDate": {"toString": 1}}\<close>: the title has an error, but
  \<^verbatim>\<open>new Date(dueDate)\<close> throws a \<^verbatim>\<open>TypeError\<close>, which \<^verbatim>\<open>validateUpdateTask\<close> passes to
  \<^verbatim>\<open>next\<close>; the update route answers 500 with the message of the \<^verbatim>\<open>TypeError\<close>, and the
  error of the title is in no answer.
\<close>

theorem validateUpdateTask_TypeError_drops_errors:
  "(let req = \<lparr>params = [js ''id'' \<mapsto> JStr (js ''f9312e7d-1d33-43e2-9145-3bafac1199dd'')],
                body = [js ''title'' \<mapsto> JStr (js ''''),
                        js ''dueDate'' \<mapsto> JObj [(js ''toString'', JNum (Finite 1))]]\<rparr>
    in validateTitle (getProp (body req) ''title'')
         = Some \<lparr>field = js ''title'', message = js ''Title must be at least 3 characters long''\<rparr>
     \<and> validateUpdateTask exampleEnv 0 0 req
         = NextError (TypeError (js ''Cannot convert object to primitive value''))
     \<and> run (router_put_id exampleEnv 0 0 0) req Map.empty
         = (Some (JsonResponse 500
                    (ErrorBody (js ''Cannot convert object to primitive value'') 500)),
            Map.empty))"
proof -
  let ?req = "\<lparr>params = [js ''id'' \<mapsto> JStr (js ''f9312e7d-1d33-43e2-9145-3bafac1199dd'')],
                body = [js ''title'' \<mapsto> JStr (js ''''),
                        js ''dueDate'' \<mapsto> JObj [(js ''toString'', JNum (Finite 1))]]\<rparr>"
  have t: "validateTitle (getProp (body ?req) ''title'')
         = Some \<lparr>field = js ''title'', message = js ''Title must be at least 3 characters long''\<rparr>"
    by (simp add: getProp_def validateTitle_def trim_def)
  have v: "validateUpdateTask exampleEnv 0 0 ?req
         = NextError (TypeError (js ''Cannot convert object to primitive value''))"
    by (simp add: validateUpdateTask_def Let_def getProp_def validateDueDate_def
        newDate_toString_object example_typeErrorMessage)
  have r: "run (router_put_id exampleEnv 0 0 0) ?req Map.empty
         = (Some (JsonResponse 500
                    (ErrorBody (js ''Cannot convert object to primitive value'') 500)),
            Map.empty)"
    by (subst run_router_put_id, subst uuid_example_id, simp only: outcome.case, subst v)
      (simp add: errorHandler_TypeError)
  show ?thesis
    unfolding Let_def using t v r by (intro conjI)
qed

text \<open>
  On payloads whose \<^verbatim>\<open>dueDate\<close> does not make \<^verbatim>\<open>new Date\<close> throw, the aggregators report as
  the lemmas above say: the payload \<^verbatim>\<open>{title: "", status: "bogus"}\<close> gets one failure with
  a title error and a status error, the empty update payload the single \<^verbatim>\<open>body\<close> error,
  and an update payload is checked on the fields it has.
\<close>

lemma validateCreateTask_example:
  "validateCreateTask e now1 now2
     \<lparr>params = p, body = [js ''title'' \<mapsto> JStr (js ''''), js ''status'' \<mapsto> JStr (js ''bogus'')]\<rparr>
   = NextError (ValidationError
       [\<lparr>field = js ''title'', message = js ''Title must be at least 3 characters long''\<rparr>,
        \<lparr>field = js ''status'',
         message = js ''Status must be one of: pending, in-progress, completed, blocked''\<rparr>])"
  using validateCreateTask_outcome [of
     "\<lparr>params = p, body = [js ''title'' \<mapsto> JStr (js ''''), js ''status'' \<mapsto> JStr (js ''bogus'')]\<rparr>"
     e now1 now2]
  by (simp add: Let_def getProp_def validateTitle_def validateDescription_def validateStatus_def
      validatePriority_def validateDueDate_def array_includes_def validStatuses_def trim_def)

lemma validateUpdateTask_example:
  "validateUpdateTask e now1 now2 \<lparr>params = p, body = Map.empty\<rparr>
     = NextError (ValidationError
         [\<lparr>field = js ''body'',
           message = js ''At least one field (title, description, status, priority, or dueDate) must be provided for update''\<rparr>])
   \<and> validateUpdateTask e now1 now2
       \<lparr>params = p, body = [js ''title'' \<mapsto> JNull, js ''priority'' \<mapsto> JStr (js ''urgent'')]\<rparr>
     = NextError (ValidationError
         [\<lparr>field = js ''title'', message = js ''Title is required''\<rparr>,
          \<lparr>field = js ''priority'',
           message = js ''Priority must be one of: low, medium, high, critical''\<rparr>])"
  using validateUpdateTask_outcome [of "\<lparr>params = p, body = Map.empty\<rparr>" e now1 now2]
    validateUpdateTask_outcome [of
     "\<lparr>params = p, body = [js ''title'' \<mapsto> JNull, js ''priority'' \<mapsto> JStr (js ''urgent'')]\<rparr>"
     e now1 now2]
  by (simp add: Let_def getProp_def validateTitle_def validateDescription_def validateStatus_def
      validatePriority_def validateDueDate_def array_includes_def validStatuses_def
      validPriorities_def)

section \<open>The identifier validator\<close>

lemma validateTaskId_invalid:
  assumes "\<forall>s. getProp (params req) ''id'' = JStr s \<longrightarrow> \<not> regex_test uuidRegex s"
  shows "\<exists>m. validateTaskId req = NextError (ValidationError [\<lparr>field = js ''id'', message = m\<rparr>])"
  using assms
  by (cases "getProp (params req) ''id''") (auto simp: validateTaskId_def Let_def typeof_def truthy_def)

text \<open>
  C9. When the \<^verbatim>\<open>id\<close> path parameter is not a string that matches the UUID v4 pattern,
  \<^verbatim>\<open>validateTaskId\<close> passes on a validation failure whose single error has field \<^verbatim>\<open>id\<close>.
  Whatever handlers follow it on the route are skipped: the answer is the 400 response
  of that failure and the store is the one the request found, for every list \<open>hs\<close> of
  later handlers, and so on the get, update and delete routes.
\<close>

theorem invalid_id_never_reaches_repository:
  assumes "\<forall>s. getProp (params req) ''id'' = JStr s \<longrightarrow> \<not> regex_test uuidRegex s"
  shows "\<exists>m. (\<forall>hs. run (middleware validateTaskId # hs) req tasks
                 = (Some (JsonResponse 400 (ValidationBody [\<lparr>field = js ''id'', message = m\<rparr>])), tasks))
           \<and> run router_get_id req tasks
                 = (Some (JsonResponse 400 (ValidationBody [\<lparr>field = js ''id'', message = m\<rparr>])), tasks)
           \<and> run (router_put_id e now1 now2 now3) req tasks
                 = (Some (JsonResponse 400 (ValidationBody [\<lparr>field = js ''id'', message = m\<rparr>])), tasks)
           \<and> run router_delete_id req tasks
                 = (Some (JsonResponse 400 (ValidationBody [\<lparr>field = js ''id'', message = m\<rparr>])), tasks)"
proof -
  obtain m where m: "validateTaskId req = NextError (ValidationError [\<lparr>field = js ''id'', message = m\<rparr>])"
    using validateTaskId_invalid [OF assms] by blast
  have "run (middleware validateTaskId # hs) req tasks
          = (Some (JsonResponse 400 (ValidationBody [\<lparr>field = js ''id'', message = m\<rparr>])), tasks)" for hs
    by (simp add: middleware_def m errorHandler_ValidationError)
  then show ?thesis
    unfolding router_get_id_def router_put_id_def router_delete_id_def by blast
qed

theorem invalid_id_never_reaches_repository_witness:
  "run router_delete_id \<lparr>params = [js ''id'' \<mapsto> JStr (js ''invalid-uuid'')], body = Map.empty\<rparr>
      [js ''f9312e7d-1d33-43e2-9145-3bafac1199dd'' \<mapsto> [js ''title'' \<mapsto> JStr (js ''Do taxes'')]]
   = (Some (JsonResponse 400 (ValidationBody
        [\<lparr>field = js ''id'', message = js ''Invalid task ID format (must be a valid UUID v4)''\<rparr>])),
      [js ''f9312e7d-1d33-43e2-9145-3bafac1199dd'' \<mapsto> [js ''title'' \<mapsto> JStr (js ''Do taxes'')]])"
proof -
  let ?req = "\<lparr>params = [js ''id'' \<mapsto> JStr (js ''invalid-uuid'')], body = Map.empty\<rparr>"
  let ?tasks = "[js ''f9312e7d-1d33-43e2-9145-3bafac1199dd'' \<mapsto> [js ''title'' \<mapsto> JStr (js ''Do taxes'')]]"
  have len: "\<not> regex_test uuidRegex (js ''invalid-uuid'')"
    by (auto simp: regex_test_def uuidRegex_def dest: list_all2_lengthD)
  have h: "\<forall>s. getProp (params ?req) ''id'' = JStr s \<longrightarrow> \<not> regex_test uuidRegex s"
    using len by (simp add: getProp_def)
  have v: "validateTaskId ?req = NextError (ValidationError
        [\<lparr>field = js ''id'', message = js ''Invalid task ID format (must be a valid UUID v4)''\<rparr>])"
    using len by (simp add: validateTaskId_def getProp_def truthy_def typeof_def Let_def js_def)
  from invalid_id_never_reaches_repository [OF h, of _ exampleEnv 0 0 0]
  obtain m where "run router_delete_id ?req ?tasks
     = (Some (JsonResponse 400 (ValidationBody [\<lparr>field = js ''id'', message = m\<rparr>])), ?tasks)"
    by blast
  moreover have "run router_delete_id ?req ?tasks
     = (Some (errorHandler (ValidationError
        [\<lparr>field = js ''id'', message = js ''Invalid task ID format (must be a valid UUID v4)''\<rparr>])),
        ?tasks)"
    by (simp add: router_delete_id_def middleware_def v)
  ultimately show ?thesis by (simp add: errorHandler_ValidationError)
qed

section \<open>Creating a task\<close>










section \<open>Updating a task\<close>

text \<open>
  A request that update-mode validation lets through carries no \<^verbatim>\<open>dueDate\<close> on which
  \<^verbatim>\<open>new Date\<close> throws: the middleware has replaced a truthy one by the date it denotes,
  and \<^verbatim>\<open>null\<close>, the one other value that passes, denotes the epoch.
\<close>

lemma newDate_JDate: "newDate e (JDate d) = Inr d"
  by (simp add: newDate_def)

lemma Next_shape:
  assumes "(case r of
              Inl err \<Rightarrow> NextError err
            | Inr de \<Rightarrow>
                (if P de then NextError (X de)
                 else if c then (case nd of Inl err \<Rightarrow> NextError err | Inr d \<Rightarrow> Next (A d))
                      else Next B)) = Next req'"
  shows "(c \<and> (\<exists>d. nd = Inr d \<and> req' = A d)) \<or> (\<not> c \<and> req' = B)"
  using assms by (auto split: sum.splits if_splits)

lemma if_upd_other:
  "k \<noteq> a \<Longrightarrow> k \<noteq> b \<Longrightarrow>
     (if c2 then (if c1 then m(a \<mapsto> x) else m)(b \<mapsto> y) else (if c1 then m(a \<mapsto> x) else m)) k = m k"
  by simp

lemma validateUpdateTask_Next_dueDate:
  assumes "validateUpdateTask e now1 now2 req = Next req'"
  shows "\<exists>d. newDate e (getProp (body req') ''dueDate'') = Inr d"
proof -
  have n: "\<not> (getProp (body req) ''title'' = JUndefined \<and> getProp (body req) ''description'' = JUndefined
         \<and> getProp (body req) ''status'' = JUndefined \<and> getProp (body req) ''priority'' = JUndefined
         \<and> getProp (body req) ''dueDate'' = JUndefined)"
    using assms by (auto simp: validateUpdateTask_def Let_def)
  have "(getProp (body req) ''dueDate'' \<noteq> JUndefined
          \<and> (\<exists>d. newDate e (getProp (body req) ''dueDate'') = Inr d
                 \<and> getProp (body req') ''dueDate'' = JDate d))
      \<or> (getProp (body req) ''dueDate'' = JUndefined
          \<and> getProp (body req') ''dueDate'' = JUndefined)"
    using assms unfolding validateUpdateTask_def Let_def if_not_P [OF n]
    by (drule_tac Next_shape) (auto simp: getProp_def if_upd_other)
  then show ?thesis by (auto simp: newDate_def)
qed

text \<open>
  C3, as the code has it. Updating an existing task leaves each of title, description,
  status, priority and dueDate that the payload does not have at its stored value, and
  sets \<^verbatim>\<open>updatedAt\<close> to the reading of the clock at the update. The new \<^verbatim>\<open>updatedAt\<close> is
  later than the old one exactly when that reading is later than the old time value:
  nothing makes two readings differ. The one payload that is not stored is one whose
  \<^verbatim>\<open>dueDate\<close> makes \<^verbatim>\<open>new Date\<close> throw: then \<^verbatim>\<open>updateTask\<close> throws before it writes.
\<close>

theorem updateTask_keeps_absent_fields:
  assumes "tasks s = Some t"
  shows "(\<exists>err. newDate e (getProp taskData ''dueDate'') = Inl err
              \<and> taskStore_updateTask e now (JStr s) taskData tasks = Inl err)
       \<or> (\<exists>t'. taskStore_updateTask e now (JStr s) taskData tasks = Inr (Some t', tasks(s \<mapsto> t'))
           \<and> (\<forall>k \<in> {''title'', ''description'', ''status'', ''priority'', ''dueDate''}.
                 taskData (js k) = None \<longrightarrow> getProp t' k = getProp t k)
           \<and> getProp t' ''updatedAt'' = JDate (Some now)
           \<and> (date_less (getTime (getProp t ''updatedAt'')) (getTime (getProp t' ''updatedAt''))
                \<longleftrightarrow> (\<exists>u. getProp t ''updatedAt'' = JDate (Some u) \<and> u < now)))"
proof (cases "getProp taskData ''dueDate'' \<noteq> JUndefined
              \<and> (\<exists>err. newDate e (getProp taskData ''dueDate'') = Inl err)")
  case True
  then show ?thesis
    using assms by (auto simp: taskStore_updateTask_def Let_def)
next
  case False
  define dueDate where "dueDate =
     (if getProp taskData ''dueDate'' \<noteq> JUndefined
      then JDate (case newDate e (getProp taskData ''dueDate'') of Inr d \<Rightarrow> d | Inl err \<Rightarrow> None)
      else getProp t ''dueDate'')"
  let ?t' = "(t ++ taskData)(js ''dueDate'' \<mapsto> dueDate, js ''updatedAt'' \<mapsto> JDate (Some now))"
  have r: "taskStore_updateTask e now (JStr s) taskData tasks = Inr (Some ?t', tasks(s \<mapsto> ?t'))"
    using assms False
    by (auto simp: taskStore_updateTask_def Let_def dueDate_def split: sum.splits)
  have keep: "getProp ?t' k = getProp t k"
    if "k \<in> {''title'', ''description'', ''status'', ''priority'', ''dueDate''}"
      and "taskData (js k) = None" for k
    using that by (auto simp: getProp_def map_add_def dueDate_def)
  have upd: "getProp ?t' ''updatedAt'' = JDate (Some now)"
    by (simp add: getProp_def)
  have lt: "date_less (getTime (getProp t ''updatedAt'')) (getTime (getProp ?t' ''updatedAt''))
                \<longleftrightarrow> (\<exists>u. getProp t ''updatedAt'' = JDate (Some u) \<and> u < now)"
    unfolding upd
    by (cases "getProp t ''updatedAt''") (auto simp: getTime_def date_less_def split: option.splits)
  show ?thesis using r keep upd lt by blast
qed

theorem updateTask_keeps_absent_fields_witness:
  "\<exists>t'. taskStore_updateTask exampleEnv 2000 (JStr (js ''f9312e7d-1d33-43e2-9145-3bafac1199dd''))
           [js ''status'' \<mapsto> JStr (js ''completed'')]
           [js ''f9312e7d-1d33-43e2-9145-3bafac1199dd'' \<mapsto>
              [js ''title'' \<mapsto> JStr (js ''Do taxes''), js ''updatedAt'' \<mapsto> JDate (Some 1000)]]
         = Inr (Some t', [js ''f9312e7d-1d33-43e2-9145-3bafac1199dd'' \<mapsto> t'])
       \<and> getProp t' ''title'' = JStr (js ''Do taxes'')
       \<and> getProp t' ''status'' = JStr (js ''completed'')
       \<and> getProp t' ''updatedAt'' = JDate (Some 2000)
       \<and> date_less (Some 1000) (getTime (getProp t' ''updatedAt''))"
  using updateTask_keeps_absent_fields [of
     "[js ''f9312e7d-1d33-43e2-9145-3bafac1199dd'' \<mapsto>
              [js ''title'' \<mapsto> JStr (js ''Do taxes''), js ''updatedAt'' \<mapsto> JDate (Some 1000)]]"
     "js ''f9312e7d-1d33-43e2-9145-3bafac1199dd''"
     "[js ''title'' \<mapsto> JStr (js ''Do taxes''), js ''updatedAt'' \<mapsto> JDate (Some 1000)]"
     exampleEnv "[js ''status'' \<mapsto> JStr (js ''completed'')]" 2000]
  by (auto simp: getProp_def getTime_def taskStore_updateTask_def Let_def newDate_def)

text \<open>
  C3 as stated fails: a task created at clock reading 1000 and updated at the same
  reading keeps its \<^verbatim>\<open>updatedAt\<close>; the new value is not greater than the old one.
\<close>

theorem updateTask_same_millisecond_counterexample:
  "taskStore_createTask exampleEnv (js ''f9312e7d-1d33-43e2-9145-3bafac1199dd'') 1000 1000
      [js ''title'' \<mapsto> JStr (js ''Do taxes'')] Map.empty
    = Inr ([js ''id'' \<mapsto> JStr (js ''f9312e7d-1d33-43e2-9145-3bafac1199dd''),
            js ''title'' \<mapsto> JStr (js ''Do taxes''),
            js ''description'' \<mapsto> JUndefined,
            js ''status'' \<mapsto> JStr (js ''pending''),
            js ''priority'' \<mapsto> JStr (js ''medium''),
            js ''dueDate'' \<mapsto> JUndefined,
            js ''createdAt'' \<mapsto> JDate (Some 1000),
            js ''updatedAt'' \<mapsto> JDate (Some 1000)],
           [js ''f9312e7d-1d33-43e2-9145-3bafac1199dd'' \<mapsto>
             [js ''id'' \<mapsto> JStr (js ''f9312e7d-1d33-43e2-9145-3bafac1199dd''),
              js ''title'' \<mapsto> JStr (js ''Do taxes''),
              js ''description'' \<mapsto> JUndefined,
              js ''status'' \<mapsto> JStr (js ''pending''),
              js ''priority'' \<mapsto> JStr (js ''medium''),
              js ''dueDate'' \<mapsto> JUndefined,
              js ''createdAt'' \<mapsto> JDate (Some 1000),
              js ''updatedAt'' \<mapsto> JDate (Some 1000)]])
   \<and> (case taskStore_updateTask exampleEnv 1000 (JStr (js ''f9312e7d-1d33-43e2-9145-3bafac1199dd''))
              [js ''status'' \<mapsto> JStr (js ''completed'')]
              [js ''f9312e7d-1d33-43e2-9145-3bafac1199dd'' \<mapsto>
                [js ''id'' \<mapsto> JStr (js ''f9312e7d-1d33-43e2-9145-3bafac1199dd''),
                 js ''title'' \<mapsto> JStr (js ''Do taxes''),
                 js ''description'' \<mapsto> JUndefined,
                 js ''status'' \<mapsto> JStr (js ''pending''),
                 js ''priority'' \<mapsto> JStr (js ''medium''),
                 js ''dueDate'' \<mapsto> JUndefined,
                 js ''createdAt'' \<mapsto> JDate (Some 1000),
                 js ''updatedAt'' \<mapsto> JDate (Some 1000)]] of
         Inr (Some t', tasks') \<Rightarrow>
           getProp t' ''status'' = JStr (js ''completed'')
           \<and> getTime (getProp t' ''updatedAt'') = Some 1000
           \<and> \<not> date_less (Some 1000) (getTime (getProp t' ''updatedAt''))
       | _ \<Rightarrow> False)"
  by (simp add: taskStore_createTask_def taskStore_updateTask_def Let_def getProp_def getTime_def
      date_less_def truthy_def)

section \<open>Updating the due date with null\<close>

text \<open>
  In a zone with one offset a day is 24 hours long, so the local day of the epoch has
  begun before the local day of a clock that is a day or more past it.
\<close>

lemma epoch_is_past_fixed:
  assumes "\<forall>t b. localTZA e t b = z" and "\<bar>z\<bar> \<le> msPerDay"
      and "msPerDay \<le> now1" and "now1 \<le> 8640000000000000"
  shows "date_less (setHours0 e 0) (setHours0 e now1)"
proof -
  have m: "localMidnight e t = Day (t + z) * msPerDay - z" for t
    using assms(1) by (simp add: localMidnight_eq LocalTime_def)
  have a: "- msPerDay < localMidnight e 0" "localMidnight e 0 \<le> 0"
    using Day_bounds [of z] by (simp_all add: m)
  have b: "now1 - msPerDay < localMidnight e now1" "localMidnight e now1 \<le> now1"
    using Day_bounds [of "now1 + z"] by (simp_all add: m)
  have "setHours0 e 0 = Some (localMidnight e 0)"
    using a by (simp add: setHours0_def TimeClip_def msPerDay_def)
  moreover have "setHours0 e now1 = Some (localMidnight e now1)"
    using b assms(3,4) by (simp add: setHours0_def TimeClip_def msPerDay_def)
  moreover have "localMidnight e 0 < localMidnight e now1"
    using a b assms(3) by linarith
  ultimately show ?thesis by (simp add: date_less_def)
qed

text \<open>
  C10. On an existing task, the update payload \<^verbatim>\<open>{dueDate: null}\<close> passes update-mode
  validation: \<^verbatim>\<open>null\<close> is not \<^verbatim>\<open>undefined\<close>, so a field is present, and \<^verbatim>\<open>validateDueDate\<close>
  accepts \<^verbatim>\<open>null\<close>. The middleware then replaces it by \<^verbatim>\<open>new Date(null)\<close>, the epoch, and
  the stored task gets the due date 1970-01-01T00:00:00.000Z. Any value other than
  \<^verbatim>\<open>null\<close> that denotes the same instant is rejected as a past date, once the server's
  clock is a day or more past the epoch in a zone with one offset, and five days or more
  in any zone (the zone offset being at most a day).
\<close>

theorem update_with_null_dueDate_stores_epoch:
  assumes "tasks s = Some t"
      and "getProp (params req) ''id'' = JStr s" and "regex_test uuidRegex s"
      and "body req = [js ''dueDate'' \<mapsto> JNull]"
      and "\<forall>t b. \<bar>localTZA e t b\<bar> \<le> msPerDay"
      and "(\<forall>t b. localTZA e t b = localTZA e 0 True)
             \<and> msPerDay \<le> now1 \<and> now1 \<le> 8640000000000000
           \<or> 5 * msPerDay \<le> now1 \<and> now1 \<le> 8640000000000000 - 2 * msPerDay"
  shows "(\<exists>t'. run (router_put_id e now1 now2 now3) req tasks
                 = (Some (JsonResponse 200 (TaskBody (Some (js ''Task updated successfully'')) t')),
                    tasks(s \<mapsto> t'))
              \<and> getProp t' ''dueDate'' = JDate (Some 0))
       \<and> (\<forall>v. v \<noteq> JUndefined \<and> v \<noteq> JNull \<and> newDate e v = Inr (Some 0) \<longrightarrow>
              validateDueDate e now1 now2 v
                = Inr (Some \<lparr>field = js ''dueDate'',
                              message = js ''Due date must be today or in the future''\<rparr>))"
proof -
  have v1: "validateTaskId req = Next req"
    using assms(2,3) by (rule validateTaskId_valid)
  have n0: "newDate e JNull = Inr (Some 0)"
    by (simp add: newDate_def)
  have v2: "validateUpdateTask e now1 now2 req
              = Next (req\<lparr>body := [js ''dueDate'' \<mapsto> JDate (Some 0)]\<rparr>)"
    by (simp add: validateUpdateTask_def assms(4) getProp_def Let_def validateDueDate_def
        n0 pushError_def)
  let ?t' = "(t ++ [js ''dueDate'' \<mapsto> JDate (Some 0)])
               (js ''dueDate'' \<mapsto> JDate (Some 0), js ''updatedAt'' \<mapsto> JDate (Some now3))"
  have "run (router_put_id e now1 now2 now3) req tasks
          = (Some (JsonResponse 200 (TaskBody (Some (js ''Task updated successfully'')) ?t')),
             tasks(s \<mapsto> ?t'))"
    using assms(1,2)
    by (simp add: run_router_put_id v1 v2 updateTask_def taskStore_updateTask_def Let_def
        getProp_def newDate_def)
  moreover have "getProp ?t' ''dueDate'' = JDate (Some 0)"
    by (simp add: getProp_def)
  moreover have "validateDueDate e now1 now2 v
                = Inr (Some \<lparr>field = js ''dueDate'',
                              message = js ''Due date must be today or in the future''\<rparr>)"
    if "v \<noteq> JUndefined \<and> v \<noteq> JNull \<and> newDate e v = Inr (Some 0)" for v
  proof -
    have "date_less (setHours0 e 0) (setHours0 e now1)"
      using assms(6)
    proof
      assume f: "(\<forall>t b. localTZA e t b = localTZA e 0 True)
             \<and> msPerDay \<le> now1 \<and> now1 \<le> 8640000000000000"
      show ?thesis
        by (rule epoch_is_past_fixed [of e "localTZA e 0 True"]) (use f assms(5) in auto)
    next
      assume "5 * msPerDay \<le> now1 \<and> now1 \<le> 8640000000000000 - 2 * msPerDay"
      then show ?thesis using epoch_is_past [OF assms(5)] by blast
    qed
    then show ?thesis using that by (simp add: validateDueDate_def Let_def)
  qed
  ultimately show ?thesis by blast
qed

theorem update_with_null_dueDate_stores_epoch_witness:
  "(\<exists>t'. run (router_put_id exampleEnv 86400000 86400000 86400000)
            \<lparr>params = [js ''id'' \<mapsto> JStr (js ''f9312e7d-1d33-43e2-9145-3bafac1199dd'')],
             body = [js ''dueDate'' \<mapsto> JNull]\<rparr>
            [js ''f9312e7d-1d33-43e2-9145-3bafac1199dd'' \<mapsto> [js ''title'' \<mapsto> JStr (js ''Do taxes'')]]
          = (Some (JsonResponse 200 (TaskBody (Some (js ''Task updated successfully'')) t')),
             [js ''f9312e7d-1d33-43e2-9145-3bafac1199dd'' \<mapsto> t'])
        \<and> getProp t' ''dueDate'' = JDate (Some 0))
   \<and> validateDueDate exampleEnv 86400000 86400000 (JNum (Finite 0))
       = Inr (Some \<lparr>field = js ''dueDate'', message = js ''Due date must be today or in the future''\<rparr>)"
proof -
  have n: "newDate exampleEnv (JNum (Finite 0)) = Inr (Some 0)"
    by (simp add: newDate_def TimeClip_def)
  show ?thesis
    using update_with_null_dueDate_stores_epoch [of
      "[js ''f9312e7d-1d33-43e2-9145-3bafac1199dd'' \<mapsto> [js ''title'' \<mapsto> JStr (js ''Do taxes'')]]"
      "js ''f9312e7d-1d33-43e2-9145-3bafac1199dd''"
      "[js ''title'' \<mapsto> JStr (js ''Do taxes'')]"
      "\<lparr>params = [js ''id'' \<mapsto> JStr (js ''f9312e7d-1d33-43e2-9145-3bafac1199dd'')],
             body = [js ''dueDate'' \<mapsto> JNull]\<rparr>"
      exampleEnv 86400000 86400000 86400000]
      uuid_example_valid n
    by (simp add: getProp_def example_offsets msPerDay_def)
qed

section \<open>A create followed by an update\<close>

text \<open>
  The two evaluations below start from the store that a create request with the payload
  \<^verbatim>\<open>{title: "Do taxes"}\<close> leaves, and send one update request to the task it created.
\<close>

lemma example_created:
  "run (router_post exampleEnv 1000 1000 (js ''f9312e7d-1d33-43e2-9145-3bafac1199dd'') 1000 1000)
     \<lparr>params = Map.empty, body = [js ''title'' \<mapsto> JStr (js ''Do taxes'')]\<rparr> Map.empty
   = (Some (JsonResponse 201 (TaskBody (Some (js ''Task created successfully''))
        [js ''id'' \<mapsto> JStr (js ''f9312e7d-1d33-43e2-9145-3bafac1199dd''),
         js ''title'' \<mapsto> JStr (js ''Do taxes''),
         js ''description'' \<mapsto> JUndefined,
         js ''status'' \<mapsto> JStr (js ''pending''),
         js ''priority'' \<mapsto> JStr (js ''medium''),
         js ''dueDate'' \<mapsto> JUndefined,
         js ''createdAt'' \<mapsto> JDate (Some 1000),
         js ''updatedAt'' \<mapsto> JDate (Some 1000)])),
      [js ''f9312e7d-1d33-43e2-9145-3bafac1199dd'' \<mapsto>
        [js ''id'' \<mapsto> JStr (js ''f9312e7d-1d33-43e2-9145-3bafac1199dd''),
         js ''title'' \<mapsto> JStr (js ''Do taxes''),
         js ''description'' \<mapsto> JUndefined,
         js ''status'' \<mapsto> JStr (js ''pending''),
         js ''priority'' \<mapsto> JStr (js ''medium''),
         js ''dueDate'' \<mapsto> JUndefined,
         js ''createdAt'' \<mapsto> JDate (Some 1000),
         js ''updatedAt'' \<mapsto> JDate (Some 1000)]])"
proof -
  have t: "trim (js ''Do taxes'') = js ''Do taxes''"
    by (simp add: trim_def js_def isWhiteSpace_def)
  have v: "validateCreateTask exampleEnv 1000 1000
             \<lparr>params = Map.empty, body = [js ''title'' \<mapsto> JStr (js ''Do taxes'')]\<rparr>
           = Next \<lparr>params = Map.empty, body = [js ''title'' \<mapsto> JStr (js ''Do taxes'')]\<rparr>"
    by (simp add: validateCreateTask_def Let_def pushError_def getProp_def validateTitle_def t
        validateDescription_def validateStatus_def validatePriority_def validateDueDate_def
        truthy_def sanitizeText_def exampleEnv_def)
  show ?thesis
    by (simp add: run_router_post v taskStore_createTask_def Let_def getProp_def truthy_def)
qed

text \<open>
  C1. The update payload \<^verbatim>\<open>{status: null, priority: null}\<close> passes validation
  (\<^verbatim>\<open>validateStatus\<close> and \<^verbatim>\<open>validatePriority\<close> accept \<^verbatim>\<open>null\<close> as an omitted field), the
  request is answered with 200, and the object spread of \<^verbatim>\<open>updateTask\<close> copies the two
  \<^verbatim>\<open>null\<close>s into the stored task: its status and its priority are no members of their
  enumerations. \<^verbatim>\<open>createTask\<close> replaces a \<^verbatim>\<open>null\<close> by the default; \<^verbatim>\<open>updateTask\<close> does not.
\<close>

theorem update_with_null_status_stores_null:
  "(let tasks1 = snd (run (router_post exampleEnv 1000 1000
                            (js ''f9312e7d-1d33-43e2-9145-3bafac1199dd'') 1000 1000)
                       \<lparr>params = Map.empty, body = [js ''title'' \<mapsto> JStr (js ''Do taxes'')]\<rparr>
                       Map.empty)
    in \<exists>t. run (router_put_id exampleEnv 2000 2000 2000)
              \<lparr>params = [js ''id'' \<mapsto> JStr (js ''f9312e7d-1d33-43e2-9145-3bafac1199dd'')],
               body = [js ''status'' \<mapsto> JNull, js ''priority'' \<mapsto> JNull]\<rparr>
              tasks1
            = (Some (JsonResponse 200 (TaskBody (Some (js ''Task updated successfully'')) t)),
               [js ''f9312e7d-1d33-43e2-9145-3bafac1199dd'' \<mapsto> t])
          \<and> getProp t ''status'' = JNull \<and> \<not> array_includes validStatuses (getProp t ''status'')
          \<and> getProp t ''priority'' = JNull \<and> \<not> array_includes validPriorities (getProp t ''priority''))"
proof -
  have v: "validateUpdateTask exampleEnv 2000 2000
             \<lparr>params = [js ''id'' \<mapsto> JStr (js ''f9312e7d-1d33-43e2-9145-3bafac1199dd'')],
               body = [js ''status'' \<mapsto> JNull, js ''priority'' \<mapsto> JNull]\<rparr>
           = Next \<lparr>params = [js ''id'' \<mapsto> JStr (js ''f9312e7d-1d33-43e2-9145-3bafac1199dd'')],
               body = [js ''status'' \<mapsto> JNull, js ''priority'' \<mapsto> JNull]\<rparr>"
    by (simp add: validateUpdateTask_def Let_def pushError_def getProp_def validateStatus_def
        validatePriority_def)
  show ?thesis
    by (simp add: example_created run_router_put_id uuid_example_id v updateTask_def
        taskStore_updateTask_def Let_def getProp_def array_includes_def)
qed

text \<open>
  C2. An update payload that carries \<^verbatim>\<open>id\<close> and \<^verbatim>\<open>createdAt\<close> beside a valid field passes
  validation, which looks at the five task fields only, and the object spread of
  \<^verbatim>\<open>updateTask\<close> copies both into the stored task: the task that was created with the
  generated identifier and \<^verbatim>\<open>createdAt\<close> 1000 is stored, under its old key, with the
  \<^verbatim>\<open>id\<close> and the \<^verbatim>\<open>createdAt\<close> of the payload.
\<close>

theorem update_overwrites_id_and_createdAt:
  "(let tasks1 = snd (run (router_post exampleEnv 1000 1000
                            (js ''f9312e7d-1d33-43e2-9145-3bafac1199dd'') 1000 1000)
                       \<lparr>params = Map.empty, body = [js ''title'' \<mapsto> JStr (js ''Do taxes'')]\<rparr>
                       Map.empty)
    in \<exists>t0 t. tasks1 (js ''f9312e7d-1d33-43e2-9145-3bafac1199dd'') = Some t0
          \<and> getProp t0 ''id'' = JStr (js ''f9312e7d-1d33-43e2-9145-3bafac1199dd'')
          \<and> getProp t0 ''createdAt'' = JDate (Some 1000)
          \<and> run (router_put_id exampleEnv 2000 2000 2000)
              \<lparr>params = [js ''id'' \<mapsto> JStr (js ''f9312e7d-1d33-43e2-9145-3bafac1199dd'')],
               body = [js ''status'' \<mapsto> JStr (js ''completed''), js ''id'' \<mapsto> JStr (js ''42''),
                       js ''createdAt'' \<mapsto> JStr (js ''never'')]\<rparr>
              tasks1
            = (Some (JsonResponse 200 (TaskBody (Some (js ''Task updated successfully'')) t)),
               [js ''f9312e7d-1d33-43e2-9145-3bafac1199dd'' \<mapsto> t])
          \<and> getProp t ''id'' = JStr (js ''42'')
          \<and> getProp t ''createdAt'' = JStr (js ''never''))"
proof -
  have v: "validateUpdateTask exampleEnv 2000 2000
             \<lparr>params = [js ''id'' \<mapsto> JStr (js ''f9312e7d-1d33-43e2-9145-3bafac1199dd'')],
               body = [js ''status'' \<mapsto> JStr (js ''completed''), js ''id'' \<mapsto> JStr (js ''42''),
                       js ''createdAt'' \<mapsto> JStr (js ''never'')]\<rparr>
           = Next \<lparr>params = [js ''id'' \<mapsto> JStr (js ''f9312e7d-1d33-43e2-9145-3bafac1199dd'')],
               body = [js ''status'' \<mapsto> JStr (js ''completed''), js ''id'' \<mapsto> JStr (js ''42''),
                       js ''createdAt'' \<mapsto> JStr (js ''never'')]\<rparr>"
    by (simp add: validateUpdateTask_def Let_def pushError_def getProp_def validateStatus_def
        array_includes_def validStatuses_def)
  show ?thesis
    by (simp add: example_created run_router_put_id uuid_example_id v updateTask_def
        taskStore_updateTask_def Let_def getProp_def)
qed

end
